theory Spec2Isabelle
  imports Complex_Main "HOL-Library.Word" "HOL-Library.Sublist"
begin

section \<open>Strings and numbers of the host language\<close>

text \<open>
  A TypeScript string is a sequence of 16-bit code units, and \<open>length\<close>, \<open>slice\<close>,
  \<open>split\<close> and the regular expressions of the sources all count and compare code units.
  ASCII literals of the sources are written \<open>jstr ''...''\<close>; the Chinese literals are given
  by their code units, with an English gloss.
\<close>

type_synonym jschar = "16 word"
type_synonym jsstr = "jschar list"

definition jstr :: "string \<Rightarrow> jsstr" where
  "jstr s = map of_char s"

text \<open>
  A number is a double. Only its truthiness and its identity matter below, so a finite
  value is kept as the rational it denotes (the two zeros are both \<open>Fin 0\<close>).
\<close>

datatype jsnum = NaN | Inf bool | Fin rat

definition num_truthy :: "jsnum \<Rightarrow> bool" where
  "num_truthy n = (n \<noteq> NaN \<and> n \<noteq> Fin 0)"

text \<open>Decimal rendering of a non-negative integer, as a template literal prints it.\<close>

fun show_nat :: "nat \<Rightarrow> jsstr" where
  "show_nat n = (if n < 10 then [of_nat (48 + n)] else show_nat (n div 10) @ [of_nat (48 + n mod 10)])"

declare show_nat.simps [simp del]

text \<open>\<open>s.split('\n')\<close>: the pieces between the separators; never the empty list.\<close>

fun split_on :: "'a \<Rightarrow> 'a list \<Rightarrow> 'a list list" where
  "split_on d [] = [[]]"
| "split_on d (c # cs) =
     (if c = d then [] # split_on d cs
      else (case split_on d cs of [] \<Rightarrow> [[c]] | l # ls \<Rightarrow> (c # l) # ls))"

definition newline :: jschar where
  "newline = 0x0A"

definition split_lines :: "jsstr \<Rightarrow> jsstr list" where
  "split_lines s = split_on newline s"

text \<open>\<open>xs.slice(s, e)\<close> for non-negative \<open>s\<close> and \<open>e\<close>; both are clamped to the length.\<close>

definition slice :: "nat \<Rightarrow> nat \<Rightarrow> 'a list \<Rightarrow> 'a list" where
  "slice s e xs = take (e - s) (drop s xs)"

text \<open>\<open>xs.slice(-n)\<close>: the last \<open>n\<close> elements (all of them when there are fewer).\<close>

definition slice_last :: "nat \<Rightarrow> 'a list \<Rightarrow> 'a list" where
  "slice_last n xs = drop (length xs - n) xs"

definition endsWith :: "jsstr \<Rightarrow> jschar \<Rightarrow> bool" where
  "endsWith s c = (s \<noteq> [] \<and> last s = c)"

text \<open>\<open>hay.includes(needle)\<close>: the needle occurs as a contiguous piece.\<close>

fun includes_str :: "jsstr \<Rightarrow> jsstr \<Rightarrow> bool" where
  "includes_str [] needle = (needle = [])"
| "includes_str (c # cs) needle = (prefix needle (c # cs) \<or> includes_str cs needle)"

text \<open>
  \<open>toLowerCase\<close>, as far as the sources can observe it. They use the result to search
  for the ASCII needles \<open>todo\<close>, \<open>fixme\<close> and \<open>console.\<close> and to look up a file
  extension among ASCII keys. The code units that the Unicode mapping turns into an ASCII
  letter standing alone are the letters A to Z and the Kelvin sign; it also turns the
  dotted capital I into \<open>i\<close> followed by a combining dot, which completes none of the
  needles and none of the keys, so that letter is left as it is, like every other code
  unit outside ASCII.
\<close>

definition lower_char :: "jschar \<Rightarrow> jschar" where
  "lower_char c =
     (if 0x41 \<le> c \<and> c \<le> 0x5A then c + 0x20 else if c = 0x212A then 0x6B else c)"

definition toLowerCase :: "jsstr \<Rightarrow> jsstr" where
  "toLowerCase s = map lower_char s"

text \<open>The class \<open>\s\<close> of a regular expression, which is also what \<open>trim\<close> strips.\<close>

definition is_space :: "jschar \<Rightarrow> bool" where
  "is_space c = (c \<in> {0x09, 0x0A, 0x0B, 0x0C, 0x0D, 0x20, 0xA0, 0x1680, 0x2028, 0x2029,
                         0x202F, 0x205F, 0x3000, 0xFEFF} \<or> (0x2000 \<le> c \<and> c \<le> 0x200A))"

text \<open>The class \<open>\w\<close>.\<close>

definition is_word :: "jschar \<Rightarrow> bool" where
  "is_word c = ((0x30 \<le> c \<and> c \<le> 0x39) \<or> (0x41 \<le> c \<and> c \<le> 0x5A) \<or> c = 0x5F
                \<or> (0x61 \<le> c \<and> c \<le> 0x7A))"

definition trim :: "jsstr \<Rightarrow> jsstr" where
  "trim s = rev (dropWhile is_space (rev (dropWhile is_space s)))"

section \<open>Findings and reviews\<close>

datatype issue_type = T_error | T_warning | T_info | T_style

datatype issue_category =
  C_security | C_performance | C_maintainability | C_readability | C_best_practices

record CodeIssue =
  line :: jsnum
  column :: "jsnum option"
  type :: issue_type
  category :: issue_category
  message :: jsstr
  suggestion :: jsstr
  code :: jsstr
  "context" :: "jsstr list"

record CodeReview =
  "file" :: jsstr
  issues :: "CodeIssue list"
  summary :: jsstr

section \<open>The heuristic analyzer\<close>

text \<open>Message of the trailing-whitespace detector (a Chinese sentence: the line ends with superfluous blanks or tabs).\<close>

definition msg_trailing_ws :: jsstr where
  "msg_trailing_ws =
     [0x884C, 0x5C3E, 0x5B58, 0x5728, 0x591A, 0x4F59, 0x7A7A, 0x683C, 0x6216, 0x5236, 0x8868,
     0x7B26]"

text \<open>Its suggestion (remove the blanks and tabs at the end of the line).\<close>

definition sug_trailing_ws :: jsstr where
  "sug_trailing_ws =
     [0x5220, 0x9664, 0x884C, 0x5C3E, 0x7684, 0x7A7A, 0x683C, 0x548C, 0x5236, 0x8868, 0x7B26]"

text \<open>Message of the line-length detector (the line is too long, at most 120 characters are advised).\<close>

definition msg_long_line :: jsstr where
  "msg_long_line =
     [0x4EE3, 0x7801, 0x884C, 0x8FC7, 0x957F, 0xFF0C, 0x5EFA, 0x8BAE, 0x4E0D, 0x8D85,
     0x8FC7] @ jstr ''120'' @ [0x4E2A, 0x5B57, 0x7B26]"

text \<open>Its suggestion (break the long line into several lines).\<close>

definition sug_long_line :: jsstr where
  "sug_long_line =
     [0x5C06, 0x957F, 0x884C, 0x62C6, 0x5206, 0x4E3A, 0x591A, 0x884C, 0xFF0C, 0x63D0, 0x9AD8,
     0x53EF, 0x8BFB, 0x6027]"

text \<open>Message of the TODO detector (a TODO/FIXME comment is present).\<close>

definition msg_todo :: jsstr where
  "msg_todo = [0x5B58, 0x5728] @ jstr ''TODO/FIXME'' @ [0x6CE8, 0x91CA]"

text \<open>Its suggestion (handle the TODO item or create a tracking task).\<close>

definition sug_todo :: jsstr where
  "sug_todo =
     [0x53CA, 0x65F6, 0x5904, 0x7406] @ jstr ''TODO'' @ [0x4E8B, 0x9879, 0x6216, 0x521B,
     0x5EFA, 0x4EFB, 0x52A1, 0x8DDF, 0x8E2A]"

text \<open>Message of the debug-print detector (the code contains a console statement).\<close>

definition msg_console :: jsstr where
  "msg_console =
     [0x4EE3, 0x7801, 0x4E2D, 0x5305, 0x542B] @ jstr ''console'' @ [0x8BED, 0x53E5]"

text \<open>Its suggestion (remove console statements from production code).\<close>

definition sug_console :: jsstr where
  "sug_console =
     [0x751F, 0x4EA7, 0x4EE3, 0x7801, 0x4E2D, 0x5E94, 0x79FB, 0x9664, 0x8C03, 0x8BD5, 0x7528,
     0x7684] @ jstr ''console'' @ [0x8BED, 0x53E5]"

text \<open>Message of the final-newline rule (the end of the file lacks an empty line).\<close>

definition msg_no_final_newline :: jsstr where
  "msg_no_final_newline = [0x6587, 0x4EF6, 0x672B, 0x5C3E, 0x7F3A, 0x5C11, 0x7A7A, 0x884C]"

text \<open>Its suggestion (add an empty line at the end of the file).\<close>

definition sug_no_final_newline :: jsstr where
  "sug_no_final_newline =
     [0x5728, 0x6587, 0x4EF6, 0x672B, 0x5C3E, 0x6DFB, 0x52A0, 0x4E00, 0x4E2A, 0x7A7A, 0x884C]"

text \<open>Message of the definition-count rule (the file defines too many functions or classes).\<close>

definition msg_too_many_functions :: jsstr where
  "msg_too_many_functions =
     [0x6587, 0x4EF6, 0x4E2D, 0x5B9A, 0x4E49, 0x4E86, 0x8FC7, 0x591A, 0x7684, 0x51FD,
     0x6570] @ jstr ''/'' @ [0x7C7B]"

text \<open>Its suggestion (split the code over several files).\<close>

definition sug_too_many_functions :: jsstr where
  "sug_too_many_functions =
     [0x8003, 0x8651, 0x5C06, 0x4EE3, 0x7801, 0x62C6, 0x5206, 0x5230, 0x591A, 0x4E2A, 0x6587,
     0x4EF6, 0x4E2D, 0xFF0C, 0x6BCF, 0x4E2A, 0x6587, 0x4EF6, 0x4E13, 0x6CE8, 0x4E00, 0x4E2A,
     0x529F, 0x80FD]"

text \<open>\<open>getContextLines(lines, lineIndex)\<close> with its default \<open>contextSize = 2\<close>.\<close>

definition getContextLines :: "jsstr list \<Rightarrow> nat \<Rightarrow> jsstr list" where
  "getContextLines lines lineIndex =
     (let start = max 0 (lineIndex - 2);
          stop = min (length lines) (lineIndex + 2 + 1)
      in slice start stop lines)"

definition line_no :: "nat \<Rightarrow> jsnum" where
  "line_no n = Fin (of_nat n)"

text \<open>The four detectors applied to one line, in the order of the source.\<close>

definition check_line :: "jsstr list \<Rightarrow> nat \<Rightarrow> jsstr \<Rightarrow> CodeIssue list" where
  "check_line lines index l =
     (if endsWith l 0x20 \<or> endsWith l 0x09
      then [\<lparr>line = line_no (index + 1), column = None, type = T_style,
             category = C_maintainability, message = msg_trailing_ws,
             suggestion = sug_trailing_ws, code = l,
             context = getContextLines lines index\<rparr>]
      else [])
     @
     (if length l > 120
      then [\<lparr>line = line_no (index + 1), column = None, type = T_warning,
             category = C_readability, message = msg_long_line,
             suggestion = sug_long_line, code = l,
             context = getContextLines lines index\<rparr>]
      else [])
     @
     (if includes_str (toLowerCase l) (jstr ''todo'') \<or> includes_str (toLowerCase l) (jstr ''fixme'')
      then [\<lparr>line = line_no (index + 1), column = None, type = T_info,
             category = C_maintainability, message = msg_todo,
             suggestion = sug_todo, code = l,
             context = getContextLines lines index\<rparr>]
      else [])
     @
     (if includes_str (toLowerCase l) (jstr ''console.'') \<and> \<not> includes_str l (jstr ''//'')
      then [\<lparr>line = line_no (index + 1), column = None, type = T_warning,
             category = C_best_practices, message = msg_console,
             suggestion = sug_console, code = l,
             context = getContextLines lines index\<rparr>]
      else [])"

text \<open>
  The regular expression counting definitions,
  \<open>function\s+\w+|const\s+\w+\s*=\s*\([^)]*\)\s*=>|class\s+\w+\<close>, matched at the head of
  a string. Every repetition in it is over a class disjoint from what has to follow, so
  the greedy match is the only one and no backtracking is needed; the three alternatives
  begin with different keywords. The matchers return what is left after the match.
\<close>

definition lit :: "jsstr \<Rightarrow> jsstr \<Rightarrow> jsstr option" where
  "lit k s = (if prefix k s then Some (drop (length k) s) else None)"

definition many :: "(jschar \<Rightarrow> bool) \<Rightarrow> jsstr \<Rightarrow> jsstr option" where
  "many p s = Some (dropWhile p s)"

definition many1 :: "(jschar \<Rightarrow> bool) \<Rightarrow> jsstr \<Rightarrow> jsstr option" where
  "many1 p s = (case s of [] \<Rightarrow> None | c # cs \<Rightarrow> if p c then Some (dropWhile p cs) else None)"

definition match_function :: "jsstr \<Rightarrow> jsstr option" where
  "match_function s =
     Option.bind (Option.bind (lit (jstr ''function'') s) (many1 is_space)) (many1 is_word)"

definition match_class :: "jsstr \<Rightarrow> jsstr option" where
  "match_class s =
     Option.bind (Option.bind (lit (jstr ''class'') s) (many1 is_space)) (many1 is_word)"

definition match_arrow :: "jsstr \<Rightarrow> jsstr option" where
  "match_arrow s =
     Option.bind (Option.bind (Option.bind (Option.bind (Option.bind (Option.bind
     (Option.bind (Option.bind (Option.bind (Option.bind
       (lit (jstr ''const'') s)
       (many1 is_space)) (many1 is_word)) (many is_space)) (lit (jstr ''=''))) (many is_space))
       (lit (jstr ''(''))) (many (\<lambda>c. c \<noteq> 0x29))) (lit (jstr '')''))) (many is_space))
       (lit (jstr ''=>''))"

definition match_definition :: "jsstr \<Rightarrow> jsstr option" where
  "match_definition s =
     (case match_function s of Some r \<Rightarrow> Some r
      | None \<Rightarrow> (case match_arrow s of Some r \<Rightarrow> Some r | None \<Rightarrow> match_class s))"

text \<open>
  \<open>content.match(/.../g)\<close>: the matches found from left to right, each search resuming
  where the previous match ended. \<open>skip\<close> counts the code units of the current match
  that are still to be passed over. The source tests \<open>functionMatches.length > 10\<close>, so
  only the number of matches is kept.
\<close>

fun count_matches :: "nat \<Rightarrow> jsstr \<Rightarrow> nat" where
  "count_matches skip [] = 0"
| "count_matches (Suc skip) (c # cs) = count_matches skip cs"
| "count_matches 0 (c # cs) =
     (case match_definition (c # cs) of
        Some rest \<Rightarrow> Suc (count_matches (length cs - length rest) cs)
      | None \<Rightarrow> count_matches 0 cs)"

definition functionMatches :: "jsstr \<Rightarrow> nat" where
  "functionMatches content = count_matches 0 content"

text \<open>\<open>performBasicCodeCheck(filePath, content, language)\<close>.\<close>

definition performBasicCodeCheck :: "jsstr \<Rightarrow> jsstr \<Rightarrow> jsstr \<Rightarrow> CodeIssue list" where
  "performBasicCodeCheck filePath content language =
     (let lines = split_lines content in
      concat (map (\<lambda>(index, l). check_line lines index l) (enumerate 0 lines))
      @
      (if length content > 0 \<and> \<not> endsWith content newline
       then [\<lparr>line = line_no (length lines), column = None, type = T_style,
              category = C_maintainability, message = msg_no_final_newline,
              suggestion = sug_no_final_newline, code = last lines,
              context = slice_last 2 lines\<rparr>]
       else [])
      @
      (if functionMatches content > 10
       then [\<lparr>line = line_no 1, column = None, type = T_warning,
              category = C_maintainability, message = msg_too_many_functions,
              suggestion = sug_too_many_functions, code = hd lines,
              context = slice 0 3 lines\<rparr>]
       else []))"

text \<open>
  The window the specification asks of every finding: the lines from two before to two
  after the triggering line (given by its index from 0), clipped to the file.
\<close>

definition context_window_spec :: "jsstr list \<Rightarrow> nat \<Rightarrow> jsstr list" where
  "context_window_spec lines i = map (\<lambda>j. lines ! j) [i - 2 ..< min (length lines) (i + 3)]"

section \<open>The result aggregator\<close>

record ReviewSummary =
  totalFiles :: nat
  totalIssues :: nat
  issuesByType :: "issue_type \<rightharpoonup> nat"
  issuesByCategory :: "issue_category \<rightharpoonup> nat"
  filesWithIssues :: nat

text \<open>\<open>tally[key] || 0\<close>: the number a tally holds for a key, 0 when it has no entry.\<close>

definition tally_value :: "('k \<rightharpoonup> nat) \<Rightarrow> 'k \<Rightarrow> nat" where
  "tally_value tally key = (case tally key of Some n \<Rightarrow> n | None \<Rightarrow> 0)"

text \<open>\<open>tally[key] = (tally[key] || 0) + 1\<close>\<close>

definition bump :: "('k \<rightharpoonup> nat) \<Rightarrow> 'k \<Rightarrow> 'k \<rightharpoonup> nat" where
  "bump tally key = tally(key \<mapsto> tally_value tally key + 1)"

definition tally_issue :: "ReviewSummary \<Rightarrow> CodeIssue \<Rightarrow> ReviewSummary" where
  "tally_issue s issue =
     s\<lparr>issuesByType := bump (issuesByType s) (type issue),
       issuesByCategory := bump (issuesByCategory s) (category issue)\<rparr>"

definition tally_review :: "ReviewSummary \<Rightarrow> CodeReview \<Rightarrow> ReviewSummary" where
  "tally_review s review =
     (if length (issues review) > 0
      then foldl tally_issue
             (s\<lparr>filesWithIssues := filesWithIssues s + 1,
                totalIssues := totalIssues s + length (issues review)\<rparr>)
             (issues review)
      else s)"

definition generateSummary :: "CodeReview list \<Rightarrow> ReviewSummary" where
  "generateSummary reviews =
     foldl tally_review
       \<lparr>totalFiles = length reviews, totalIssues = 0, issuesByType = Map.empty,
        issuesByCategory = Map.empty, filesWithIssues = 0\<rparr>
       reviews"

text \<open>The phases the client reports to its log callback: building the request,\<close>

definition ph_request_build :: jsstr where
  "ph_request_build = jstr ''AI'' @ [0x8BF7, 0x6C42, 0x6784, 0x5EFA]"

text \<open>checking the parameters,\<close>

definition ph_params :: jsstr where
  "ph_params = [0x53C2, 0x6570, 0x6821, 0x9A8C]"

text \<open>the rate limit,\<close>

definition ph_rate_limit :: jsstr where
  "ph_rate_limit = [0x9891, 0x7387, 0x9650, 0x5236]"

text \<open>the hint that the provider may refuse calls from a browser,\<close>

definition ph_hint :: jsstr where
  "ph_hint = [0x63D0, 0x793A]"

text \<open>sending a request,\<close>

definition ph_send :: jsstr where
  "ph_send = jstr ''AI'' @ [0x8BF7, 0x6C42, 0x53D1, 0x9001]"

text \<open>a failed request,\<close>

definition ph_failed :: jsstr where
  "ph_failed = jstr ''AI'' @ [0x8BF7, 0x6C42, 0x5931, 0x8D25]"

text \<open>an exception during a request,\<close>

definition ph_exception :: jsstr where
  "ph_exception = jstr ''AI'' @ [0x8BF7, 0x6C42, 0x5F02, 0x5E38]"

text \<open>sending a relay request,\<close>

definition ph_proxy_send :: jsstr where
  "ph_proxy_send = [0x4EE3, 0x7406, 0x8BF7, 0x6C42, 0x53D1, 0x9001]"

text \<open>switching to the relay,\<close>

definition ph_switch_proxy :: jsstr where
  "ph_switch_proxy = [0x81EA, 0x52A8, 0x5207, 0x6362, 0x5230, 0x4EE3, 0x7406]"

text \<open>the response received,\<close>

definition ph_received :: jsstr where
  "ph_received = jstr ''AI'' @ [0x54CD, 0x5E94, 0x63A5, 0x6536]"

text \<open>the response content,\<close>

definition ph_content :: jsstr where
  "ph_content = [0x54CD, 0x5E94, 0x5185, 0x5BB9]"

text \<open>and the result produced.\<close>

definition ph_result :: jsstr where
  "ph_result = jstr ''AI'' @ [0x7ED3, 0x679C, 0x751F, 0x6210]"

text \<open>Error messages: set the API key and choose a model first;\<close>

definition err_no_key_or_model :: jsstr where
  "err_no_key_or_model =
     [0x8BF7, 0x5148, 0x8BBE, 0x7F6E] @ jstr ''API'' @ [0x5BC6, 0x94A5, 0x548C, 0x9009,
     0x62E9, 0x6A21, 0x578B]"

text \<open>no provider configured for the model;\<close>

definition err_unknown_provider :: jsstr where
  "err_unknown_provider =
     [0x672A, 0x914D, 0x7F6E, 0x7684, 0x6A21, 0x578B, 0x63D0, 0x4F9B, 0x65B9]"

text \<open>no relay address configured;\<close>

definition err_no_proxy :: jsstr where
  "err_no_proxy = [0x672A, 0x914D, 0x7F6E, 0x4EE3, 0x7406, 0x5730, 0x5740]"

text \<open>the prefix of a direct HTTP failure;\<close>

definition err_http :: jsstr where
  "err_http = jstr ''HTTP ''"

text \<open>the prefix of a relay HTTP failure\<close>

definition err_proxy_http :: jsstr where
  "err_proxy_http = [0x4EE3, 0x7406] @ jstr ''HTTP ''"

text \<open>and the separator before the response text in it.\<close>

definition err_proxy_sep :: jsstr where
  "err_proxy_sep = jstr '' '' @ [0x00B7] @ jstr '' ''"

text \<open>Message of the finding for an unstructured response (the model returned unstructured content, the text was recorded).\<close>

definition msg_unstructured :: jsstr where
  "msg_unstructured =
     jstr ''AI'' @ [0x8FD4, 0x56DE, 0x975E, 0x7ED3, 0x6784, 0x5316, 0x5185, 0x5BB9, 0xFF0C,
     0x5DF2, 0x8BB0, 0x5F55, 0x6587, 0x672C]"

text \<open>Its suggestion (adjust the prompt so that a JSON structure is returned).\<close>

definition sug_unstructured :: jsstr where
  "sug_unstructured =
     [0x8C03, 0x6574, 0x63D0, 0x793A, 0x8BCD, 0x4EE5, 0x8FD4, 0x56DE] @ jstr ''JSON'' @
     [0x7ED3, 0x6784]"

text \<open>The default message of a finding (problem).\<close>

definition msg_default :: jsstr where
  "msg_default = [0x95EE, 0x9898]"

text \<open>Message of the finding for a failed remote call (the AI call failed, the basic check is used instead).\<close>

definition msg_ai_failed :: jsstr where
  "msg_ai_failed =
     jstr ''AI'' @ [0x8C03, 0x7528, 0x5931, 0x8D25, 0xFF0C, 0x4F7F, 0x7528, 0x57FA, 0x7840,
     0x68C0, 0x67E5, 0x66FF, 0x4EE3]"

text \<open>Its suggestion (check the API key, CORS or the network; or retry later).\<close>

definition sug_ai_failed :: jsstr where
  "sug_ai_failed =
     [0x68C0, 0x67E5] @ jstr ''API'' @ [0x5BC6, 0x94A5, 0x3001] @ jstr ''CORS'' @ [0x6216,
     0x7F51, 0x7EDC, 0xFF1B, 0x6216, 0x7A0D, 0x540E, 0x91CD, 0x8BD5]"

text \<open>Summary of a remote review: review done, found\<close>

definition sum_done_prefix :: jsstr where
  "sum_done_prefix = [0x5BA1, 0x67E5, 0x5B8C, 0x6210, 0xFF0C, 0x53D1, 0x73B0]"

text \<open>n problems.\<close>

definition sum_issues_suffix :: jsstr where
  "sum_issues_suffix = [0x4E2A, 0x95EE, 0x9898]"

text \<open>Summary of a failed remote review (the AI call failed, a degraded result is returned).\<close>

definition sum_ai_failed :: jsstr where
  "sum_ai_failed =
     jstr ''AI'' @ [0x8C03, 0x7528, 0x5931, 0x8D25, 0xFF0C, 0x8FD4, 0x56DE, 0x964D, 0x7EA7,
     0x7ED3, 0x679C]"

text \<open>The pieces of the prompt: the header,\<close>

definition prompt_header :: jsstr where
  "prompt_header =
     [0x4F60, 0x662F, 0x4EE3, 0x7801, 0x5BA1, 0x67E5, 0x4E13, 0x5BB6, 0x3002, 0x4E25, 0x683C,
     0x4F9D, 0x636E, 0x4EE5, 0x4E0B, 0x5F00, 0x53D1, 0x89C4, 0x8303, 0x8FDB, 0x884C, 0x5BA1,
     0x67E5, 0xFF0C, 0x5E76, 0x53EA, 0x8FD4, 0x56DE] @ jstr ''JSON'' @ [0xFF1A, 0x000A]"

text \<open>the file label,\<close>

definition prompt_file :: jsstr where
  "prompt_file = [0x6587, 0x4EF6] @ jstr '': ''"

text \<open>the language label,\<close>

definition prompt_language :: jsstr where
  "prompt_language = [0x000A, 0x8BED, 0x8A00] @ jstr '': ''"

text \<open>the description of the answer expected,\<close>

definition prompt_schema :: jsstr where
  "prompt_schema =
     [0x000A, 0x8BF7, 0x8F93, 0x51FA, 0x5982, 0x4E0B] @ jstr ''JSON'' @ [0x6570, 0x7EC4,
     0xFF0C, 0x6BCF, 0x9879, 0x4E3A, 0x95EE, 0x9898, 0xFF1A] @
     jstr ''{ line, type, category, message, suggestion, code, context }'' @ [0xFF0C, 0x4E14,
     0x4EC5, 0x8FD4, 0x56DE] @ jstr ''JSON'' @ [0x3002]"

text \<open>the label of the standards\<close>

definition prompt_standards :: jsstr where
  "prompt_standards = [0x89C4, 0x8303] @ jstr '':'' @ [0x000A]"

text \<open>and the label of the code.\<close>

definition prompt_code :: jsstr where
  "prompt_code = [0x000A] @ jstr ''---'' @ [0x000A, 0x4EE3, 0x7801] @ jstr '':'' @ [0x000A]"

text \<open>The system message of a chat request (you are a senior code review expert).\<close>

definition system_message :: jsstr where
  "system_message =
     [0x4F60, 0x662F, 0x8D44, 0x6DF1, 0x4EE3, 0x7801, 0x5BA1, 0x67E5, 0x4E13, 0x5BB6, 0x3002]"

section \<open>Values read from a response\<close>

text \<open>
  What \<open>JSON.parse\<close> and \<open>res.json()\<close> return. An object is the list of its own
  properties, and the first binding of a name is the one that counts. A value that may be
  \<open>undefined\<close> is a \<open>json option\<close>.
\<close>

datatype json =
  JNull | JBool bool | JNum jsnum | JStr jsstr | JArr "json list" | JObj "(jsstr \<times> json) list"

definition truthy :: "json option \<Rightarrow> bool" where
  "truthy v =
     (case v of
        None \<Rightarrow> False
      | Some JNull \<Rightarrow> False
      | Some (JBool b) \<Rightarrow> b
      | Some (JNum n) \<Rightarrow> num_truthy n
      | Some (JStr s) \<Rightarrow> s \<noteq> []
      | Some (JArr xs) \<Rightarrow> True
      | Some (JObj kvs) \<Rightarrow> True)"

text \<open>
  \<open>x.name\<close> for a value \<open>x\<close> that is not \<open>null\<close>. None of the names read in the
  sources (\<open>line\<close>, \<open>column\<close>, \<open>type\<close>, \<open>category\<close>, \<open>message\<close>, \<open>suggestion\<close>,
  \<open>code\<close>, \<open>context\<close>, \<open>choices\<close>, \<open>content\<close>, \<open>data\<close>, \<open>text\<close>) is a property that
  strings, numbers, booleans, arrays or objects inherit, so only an object's own
  properties answer.
\<close>

definition get_prop :: "json \<Rightarrow> jsstr \<Rightarrow> json option" where
  "get_prop x name = (case x of JObj kvs \<Rightarrow> map_of kvs name | _ \<Rightarrow> None)"

text \<open>\<open>v?.name\<close>\<close>

definition opt_prop :: "json option \<Rightarrow> jsstr \<Rightarrow> json option" where
  "opt_prop v name = (case v of None \<Rightarrow> None | Some JNull \<Rightarrow> None | Some x \<Rightarrow> get_prop x name)"

text \<open>\<open>v?.[0]\<close>: the first element of an array, the first code unit of a string.\<close>

definition opt_first :: "json option \<Rightarrow> json option" where
  "opt_first v =
     (case v of
        Some (JArr xs) \<Rightarrow> (case xs of [] \<Rightarrow> None | x # _ \<Rightarrow> Some x)
      | Some (JStr s) \<Rightarrow> (case s of [] \<Rightarrow> None | c # _ \<Rightarrow> Some (JStr [c]))
      | Some (JObj kvs) \<Rightarrow> map_of kvs (jstr ''0'')
      | _ \<Rightarrow> None)"

section \<open>The remote review client\<close>

subsection \<open>The network and the built-in conversions\<close>

text \<open>
  An error caught inside the client: an \<open>Error\<close> with its message, or a \<open>TypeError\<close>
  raised by the engine. What a caller of the client or of the orchestrator sees thrown is
  always an \<open>Error\<close> made by the sources, with its message.
\<close>

datatype failure = Failed jsstr | TypeError

datatype thrown = Error jsstr

record request =
  url :: jsstr
  http_method :: jsstr
  headers :: "(jsstr \<times> jsstr) list"
  body :: jsstr

text \<open>A response: \<open>res.ok\<close>, \<open>res.status\<close>, and what \<open>res.text()\<close> and \<open>res.json()\<close> give.\<close>

record response =
  ok :: bool
  status :: nat
  res_text :: "failure + jsstr"
  res_json :: "failure + json"

text \<open>
  What the client takes from its environment: the network, as the answer to each
  request, and the built-in functions \<open>JSON.parse\<close> (\<open>None\<close> when it throws),
  \<open>JSON.stringify\<close>, and \<open>Number\<close> and \<open>String\<close> on the values where they depend on
  the parsing and printing of numbers or on the conversion of arrays and objects
  (\<open>None\<close> when they throw), the text a template literal prints for the member
  of that name inherited from \<open>Object.prototype\<close>, and the message of the
  \<open>TypeError\<close> that the engine raises when \<open>trim\<close> is called on a value that is
  not a string.
\<close>

record runtime =
  fetch :: "request \<Rightarrow> failure + response"
  parse :: "jsstr \<Rightarrow> json option"
  stringify :: "json \<Rightarrow> jsstr"
  toNumber :: "json \<Rightarrow> jsnum option"
  toStr :: "json \<Rightarrow> jsstr option"
  inheritedText :: "jsstr \<Rightarrow> jsstr"
  trimFailure :: "json \<Rightarrow> jsstr"

text \<open>\<open>Number(v)\<close>\<close>

definition js_Number :: "runtime \<Rightarrow> json option \<Rightarrow> jsnum option" where
  "js_Number rt v =
     (case v of
        None \<Rightarrow> Some NaN
      | Some JNull \<Rightarrow> Some (Fin 0)
      | Some (JBool b) \<Rightarrow> Some (Fin (if b then 1 else 0))
      | Some (JNum n) \<Rightarrow> Some n
      | Some x \<Rightarrow> toNumber rt x)"

text \<open>\<open>String(x)\<close>\<close>

definition js_String :: "runtime \<Rightarrow> json \<Rightarrow> jsstr option" where
  "js_String rt x =
     (case x of
        JStr s \<Rightarrow> Some s
      | JNull \<Rightarrow> Some (jstr ''null'')
      | JBool b \<Rightarrow> Some (jstr (if b then ''true'' else ''false''))
      | _ \<Rightarrow> toStr rt x)"

text \<open>\<open>String(v || d)\<close> for a string \<open>d\<close>\<close>

definition js_String_or :: "runtime \<Rightarrow> json option \<Rightarrow> jsstr \<Rightarrow> jsstr option" where
  "js_String_or rt v d =
     (case v of None \<Rightarrow> Some d | Some x \<Rightarrow> if truthy v then js_String rt x else Some d)"

subsection \<open>Configuration\<close>

record AIModel =
  model_id :: jsstr
  name :: jsstr
  provider :: jsstr
  description :: jsstr
  maxTokens :: nat
  supported :: bool

datatype connection_mode = Auto | Direct | Proxy

record client_stats =
  success :: nat
  fail :: nat
  lastError :: "failure option"

text \<open>
  The state of the client. The two tables of the rate limiter (the time of the last
  request and the number of requests of each model) are left out: they are read by the
  pacing and by the detail of a log line only. \<open>lastError\<close> holds the error whose message
  the source stores.
\<close>

record AIService =
  apiKey :: jsstr
  model :: "AIModel option"
  connectionMode :: connection_mode
  proxyUrl :: jsstr
  warnedProviders :: "jsstr set"
  stats :: client_stats

datatype provider_type = P_openai | P_deepseek | P_anthropic | P_moonshot | P_doubao

record provider_config =
  ptype :: provider_type
  urls :: "jsstr list"
  headerAuth :: jsstr
  minIntervalMs :: nat
  corsSupported :: "bool option"

text \<open>
  \<open>map[modelId]\<close> on the object literal of \<open>getProviderConfig\<close>: one of its five entries,
  a member inherited from \<open>Object.prototype\<close> (truthy, and without any of the fields of a
  configuration), or \<open>undefined\<close>.
\<close>

datatype config_lookup = Own provider_config | Inherited | Missing

definition object_prototype_names :: "jsstr list" where
  "object_prototype_names =
     map jstr [''constructor'', ''toString'', ''toLocaleString'', ''valueOf'',
       ''hasOwnProperty'', ''isPrototypeOf'', ''propertyIsEnumerable'', ''__proto__'',
       ''__defineGetter__'', ''__defineSetter__'', ''__lookupGetter__'', ''__lookupSetter__'']"

definition provider_table :: "(jsstr \<times> provider_config) list" where
  "provider_table =
     [(jstr ''gpt-4'',
       \<lparr>ptype = P_openai, urls = [jstr ''https://api.openai.com/v1/chat/completions''],
        headerAuth = jstr ''Authorization'', minIntervalMs = 1000, corsSupported = Some False\<rparr>),
      (jstr ''deepseek-chat'',
       \<lparr>ptype = P_deepseek, urls = [jstr ''https://api.deepseek.com/v1/chat/completions''],
        headerAuth = jstr ''Authorization'', minIntervalMs = 1000, corsSupported = Some False\<rparr>),
      (jstr ''claude-3-sonnet'',
       \<lparr>ptype = P_anthropic, urls = [jstr ''https://api.anthropic.com/v1/messages''],
        headerAuth = jstr ''x-api-key'', minIntervalMs = 1000, corsSupported = Some False\<rparr>),
      (jstr ''kimi-k2'',
       \<lparr>ptype = P_moonshot,
        urls = [jstr ''https://api.moonshot.cn/v1/chat/completions'',
                jstr ''https://api.moonshot.ai/v1/chat/completions''],
        headerAuth = jstr ''Authorization'', minIntervalMs = 1000, corsSupported = Some False\<rparr>),
      (jstr ''doubao-pro'',
       \<lparr>ptype = P_doubao, urls = [jstr ''https://api.doubao.com/v1/chat/completions''],
        headerAuth = jstr ''Authorization'', minIntervalMs = 1000, corsSupported = Some False\<rparr>)]"

definition getProviderConfig :: "jsstr \<Rightarrow> config_lookup" where
  "getProviderConfig modelId =
     (case map_of provider_table modelId of
        Some c \<Rightarrow> Own c
      | None \<Rightarrow> if modelId \<in> set object_prototype_names then Inherited else Missing)"

subsection \<open>Redaction\<close>

text \<open>
  \<open>text.replace(rx, '***')\<close> for a global regular expression: the matches are found from
  left to right, each search resuming where the previous match ended, and each match is
  replaced by the mask. A matcher \<open>m\<close> is given the text before the position, nearest code
  unit first (a lookbehind reads the text as it was, also across an earlier match), and
  the text from the position on; it returns the length of the match there. \<open>skip\<close>
  counts the code units of the current match that are still to be passed over.
\<close>

definition mask :: jsstr where
  "mask = jstr ''***''"

fun mask_scan :: "(jsstr \<Rightarrow> jsstr \<Rightarrow> nat option) \<Rightarrow> jsstr \<Rightarrow> nat \<Rightarrow> jsstr \<Rightarrow> jsstr" where
  "mask_scan m behind skip [] = []"
| "mask_scan m behind (Suc skip) (c # cs) = mask_scan m (c # behind) skip cs"
| "mask_scan m behind 0 (c # cs) =
     (case m behind (c # cs) of
        Some n \<Rightarrow> mask @ mask_scan m (c # behind) (n - 1) cs
      | None \<Rightarrow> c # mask_scan m (c # behind) 0 cs)"

definition replace_all :: "(jsstr \<Rightarrow> jsstr \<Rightarrow> nat option) \<Rightarrow> jsstr \<Rightarrow> jsstr" where
  "replace_all m s = mask_scan m [] 0 s"

text \<open>
  The flag \<open>i\<close> of these regular expressions (which have no flag \<open>u\<close>) relates
  the letters a to z to A to Z and relates no code unit outside ASCII to one inside; the
  Kelvin sign, which \<open>toLowerCase\<close> turns into \<open>k\<close>, matches no \<open>k\<close> here.
\<close>

definition fold_case :: "jschar \<Rightarrow> jschar" where
  "fold_case c = (if 0x41 \<le> c \<and> c \<le> 0x5A then c + 0x20 else c)"

text \<open>The keyword of a lookbehind, given in lower case, read backwards.\<close>

definition ends_with_ci :: "string \<Rightarrow> jsstr \<Rightarrow> bool" where
  "ends_with_ci word behind = (map fold_case (take (length word) behind) = rev (jstr word))"

text \<open>\<open>access[_-]?key\<close> and \<open>secret[_-]?key\<close>, read backwards.\<close>

definition ends_with_key :: "string \<Rightarrow> jsstr \<Rightarrow> bool" where
  "ends_with_key word behind =
     (ends_with_ci ''key'' behind \<and>
      (let r = drop 3 behind in
       ends_with_ci word r \<or>
       (case r of [] \<Rightarrow> False | c # r' \<Rightarrow> (c = 0x5F \<or> c = 0x2D) \<and> ends_with_ci word r')))"

text \<open>
  The lookbehind \<open>(?<=kw\s*[:=]\s*)\<close>, read backwards: blanks, a colon or an equals
  sign, blanks, the keyword. Blanks are neither of the two signs nor the last letter of
  a keyword, so skipping all of them loses no match.
\<close>

definition lookbehind :: "(jsstr \<Rightarrow> bool) \<Rightarrow> jsstr \<Rightarrow> bool" where
  "lookbehind kw behind =
     (case dropWhile is_space behind of
        [] \<Rightarrow> False
      | c # r \<Rightarrow> (c = 0x3A \<or> c = 0x3D) \<and> kw (dropWhile is_space r))"

text \<open>A lookbehind followed by one or more code units of a class, as many as there are.\<close>

definition match_after :: "(jsstr \<Rightarrow> bool) \<Rightarrow> (jschar \<Rightarrow> bool) \<Rightarrow> jsstr \<Rightarrow> jsstr \<Rightarrow> nat option" where
  "match_after kw cls behind s =
     (case s of
        [] \<Rightarrow> None
      | c # cs \<Rightarrow> if cls c \<and> lookbehind kw behind then Some (length (takeWhile cls s)) else None)"

text \<open>The classes \<open>[A-Za-z0-9_\-]\<close>, \<open>[A-Za-z0-9\._\-]\<close> and \<open>[^\s"']\<close>.\<close>

definition key_char :: "jschar \<Rightarrow> bool" where
  "key_char c = (is_word c \<or> c = 0x2D)"

definition token_char :: "jschar \<Rightarrow> bool" where
  "token_char c = (is_word c \<or> c = 0x2E \<or> c = 0x2D)"

definition password_char :: "jschar \<Rightarrow> bool" where
  "password_char c = (\<not> is_space c \<and> c \<noteq> 0x22 \<and> c \<noteq> 0x27)"

text \<open>\<open>AKIA[0-9A-Z]{16}\<close>\<close>

definition upper_or_digit :: "jschar \<Rightarrow> bool" where
  "upper_or_digit c = ((0x30 \<le> c \<and> c \<le> 0x39) \<or> (0x41 \<le> c \<and> c \<le> 0x5A))"

definition match_akia :: "jsstr \<Rightarrow> jsstr \<Rightarrow> nat option" where
  "match_akia behind s =
     (if take 4 s = jstr ''AKIA'' \<and> length (take 16 (drop 4 s)) = 16
         \<and> list_all upper_or_digit (take 16 (drop 4 s))
      then Some 20 else None)"

definition patterns :: "(jsstr \<Rightarrow> jsstr \<Rightarrow> nat option) list" where
  "patterns =
     [match_after (ends_with_key ''access'') key_char,
      match_after (ends_with_key ''secret'') key_char,
      match_after (ends_with_ci ''token'') token_char,
      match_after (ends_with_ci ''password'') password_char,
      match_akia]"

definition maskSensitive :: "jsstr \<Rightarrow> jsstr" where
  "maskSensitive text = foldl (\<lambda>masked rx. replace_all rx masked) text patterns"

subsection \<open>The prompt\<close>

definition buildPrompt :: "jsstr \<Rightarrow> jsstr \<Rightarrow> jsstr \<Rightarrow> jsstr \<Rightarrow> jsstr" where
  "buildPrompt filePath src language standards =
     (let header = prompt_header;
          std = slice 0 8000 standards;
          body = prompt_file @ filePath @ prompt_language @ language @ prompt_schema;
          content = prompt_standards @ std @ prompt_code @ slice 0 15000 src
      in header @ body @ [newline] @ content)"

subsection \<open>Normalizing the response\<close>

fun indexOf :: "'a \<Rightarrow> 'a list \<Rightarrow> nat option" where
  "indexOf c [] = None"
| "indexOf c (x # xs) = (if x = c then Some 0 else map_option Suc (indexOf c xs))"

definition lastIndexOf :: "'a \<Rightarrow> 'a list \<Rightarrow> nat option" where
  "lastIndexOf c s = map_option (\<lambda>i. length s - 1 - i) (indexOf c (rev s))"

definition issue_type_of :: "json option \<Rightarrow> issue_type" where
  "issue_type_of v =
     (if v = Some (JStr (jstr ''error'')) then T_error
      else if v = Some (JStr (jstr ''warning'')) then T_warning
      else if v = Some (JStr (jstr ''info'')) then T_info
      else if v = Some (JStr (jstr ''style'')) then T_style
      else T_info)"

definition issue_category_of :: "json option \<Rightarrow> issue_category" where
  "issue_category_of v =
     (if v = Some (JStr (jstr ''security'')) then C_security
      else if v = Some (JStr (jstr ''performance'')) then C_performance
      else if v = Some (JStr (jstr ''maintainability'')) then C_maintainability
      else if v = Some (JStr (jstr ''readability'')) then C_readability
      else if v = Some (JStr (jstr ''best-practices'')) then C_best_practices
      else C_maintainability)"

text \<open>
  The function mapped over the parsed array. \<open>None\<close> stands for an exception: reading
  a property of \<open>null\<close>, or a conversion that throws.
\<close>

definition to_issue :: "runtime \<Rightarrow> json \<Rightarrow> CodeIssue option" where
  "to_issue rt x =
     (case x of
        JNull \<Rightarrow> None
      | _ \<Rightarrow>
        Option.bind (js_Number rt (get_prop x (jstr ''line''))) (\<lambda>n.
        Option.bind (if truthy (get_prop x (jstr ''column''))
                     then map_option Some (js_Number rt (get_prop x (jstr ''column'')))
                     else Some None) (\<lambda>col.
        Option.bind (js_String_or rt (get_prop x (jstr ''message'')) msg_default) (\<lambda>msg.
        Option.bind (js_String_or rt (get_prop x (jstr ''suggestion'')) []) (\<lambda>sug.
        Option.bind (js_String_or rt (get_prop x (jstr ''code'')) []) (\<lambda>cd.
        Option.bind (case get_prop x (jstr ''context'') of
                       Some (JArr ys) \<Rightarrow> those (map (js_String rt) ys)
                     | _ \<Rightarrow> Some []) (\<lambda>ctx.
        Some \<lparr>line = (if num_truthy n then n else Fin 1), column = col,
              type = issue_type_of (get_prop x (jstr ''type'')),
              category = issue_category_of (get_prop x (jstr ''category'')),
              message = msg, suggestion = sug, code = cd, context = ctx\<rparr>)))))))"

text \<open>The finding returned after the \<open>try\<close> block.\<close>

definition unstructured_issue :: "jsstr \<Rightarrow> CodeIssue" where
  "unstructured_issue src =
     \<lparr>line = Fin 1, column = None, type = T_info, category = C_readability,
      message = msg_unstructured, suggestion = sug_unstructured,
      code = (case split_lines src of [] \<Rightarrow> [] | l # ls \<Rightarrow> l),
      context = slice 0 3 (split_lines src)\<rparr>"

text \<open>
  The \<open>try\<close> block of \<open>normalizeIssuesFromText\<close>: \<open>Some\<close> when it returns, \<open>None\<close>
  when it throws or is left without a \<open>return\<close>. The argument is the value the
  response gave, which need not be a string; \<open>trim\<close> exists on strings only.
\<close>

definition normalize_try :: "runtime \<Rightarrow> json \<Rightarrow> CodeIssue list option" where
  "normalize_try rt text =
     (case text of
        JStr t \<Rightarrow>
          (let trimmed = trim t in
           case (indexOf 0x5B trimmed, lastIndexOf 0x5D trimmed) of
             (Some jsonStart, Some jsonEnd) \<Rightarrow>
               if jsonEnd > jsonStart
               then (case parse rt (slice jsonStart (jsonEnd + 1) trimmed) of
                       Some (JArr arr) \<Rightarrow> those (map (to_issue rt) arr)
                     | _ \<Rightarrow> None)
               else None
           | _ \<Rightarrow> None)
      | _ \<Rightarrow> None)"

definition normalizeIssuesFromText :: "runtime \<Rightarrow> json \<Rightarrow> jsstr \<Rightarrow> jsstr \<Rightarrow> CodeIssue list" where
  "normalizeIssuesFromText rt text filePath src =
     (case normalize_try rt text of Some found \<Rightarrow> found | None \<Rightarrow> [unstructured_issue src])"

subsection \<open>Dispatch\<close>

definition chat_body :: "AIModel \<Rightarrow> jsstr \<Rightarrow> (jsstr \<times> json) list" where
  "chat_body m prompt =
     [(jstr ''model'', JStr (model_id m)),
      (jstr ''messages'',
         JArr [JObj [(jstr ''role'', JStr (jstr ''system'')), (jstr ''content'', JStr system_message)],
               JObj [(jstr ''role'', JStr (jstr ''user'')), (jstr ''content'', JStr prompt)]]),
      (jstr ''temperature'', JNum (Fin 0)),
      (jstr ''max_tokens'', JNum (Fin 2048))]"

definition messages_body :: "AIModel \<Rightarrow> jsstr \<Rightarrow> (jsstr \<times> json) list" where
  "messages_body m prompt =
     [(jstr ''model'', JStr (model_id m)),
      (jstr ''max_tokens'', JNum (Fin 2048)),
      (jstr ''messages'',
         JArr [JObj [(jstr ''role'', JStr (jstr ''user'')), (jstr ''content'', JStr prompt)]])]"

definition direct_request :: "runtime \<Rightarrow> provider_config \<Rightarrow> jsstr \<Rightarrow> (jsstr \<times> json) list \<Rightarrow> jsstr \<Rightarrow> request" where
  "direct_request rt cfg key b u =
     \<lparr>url = u, http_method = jstr ''POST'',
      headers = [(jstr ''Content-Type'', jstr ''application/json''),
                 (headerAuth cfg, jstr ''Bearer '' @ key)],
      body = stringify rt (JObj b)\<rparr>"

text \<open>\<open>proxyUrl.replace(/\/$/, '')\<close>: one slash at the end is removed.\<close>

definition strip_slash :: "jsstr \<Rightarrow> jsstr" where
  "strip_slash s = (if endsWith s 0x2F then butlast s else s)"

definition proxy_request :: "runtime \<Rightarrow> jsstr \<Rightarrow> jsstr \<Rightarrow> (jsstr \<times> json) list \<Rightarrow> request" where
  "proxy_request rt proxy key b =
     \<lparr>url = strip_slash proxy @ jstr ''/v1/chat/completions'', http_method = jstr ''POST'',
      headers = [(jstr ''Content-Type'', jstr ''application/json'')],
      body = stringify rt (JObj (b @ [(jstr ''api_key'', JStr key)]))\<rparr>"

definition messages_request :: "runtime \<Rightarrow> provider_config \<Rightarrow> jsstr \<Rightarrow> (jsstr \<times> json) list \<Rightarrow> jsstr \<Rightarrow> request" where
  "messages_request rt cfg key b u =
     \<lparr>url = u, http_method = jstr ''POST'',
      headers = [(jstr ''Content-Type'', jstr ''application/json''), (headerAuth cfg, key)],
      body = stringify rt (JObj b)\<rparr>"

text \<open>
  \<open>json?.choices?.[0]?.message?.content || json?.data || JSON.stringify(json)\<close>: the
  value that becomes \<open>responseText\<close>.
\<close>

definition chat_text :: "runtime \<Rightarrow> json \<Rightarrow> json" where
  "chat_text rt j =
     (let a = opt_prop (opt_prop (opt_first (opt_prop (Some j) (jstr ''choices'')))
                 (jstr ''message'')) (jstr ''content'');
          b = opt_prop (Some j) (jstr ''data'')
      in case a of
           Some x \<Rightarrow> if truthy a then x
                     else (case b of Some y \<Rightarrow> if truthy b then y else JStr (stringify rt j)
                           | None \<Rightarrow> JStr (stringify rt j))
         | None \<Rightarrow> (case b of Some y \<Rightarrow> if truthy b then y else JStr (stringify rt j)
                     | None \<Rightarrow> JStr (stringify rt j)))"

text \<open>\<open>json?.content?.[0]?.text || JSON.stringify(json)\<close>\<close>

definition messages_text :: "runtime \<Rightarrow> json \<Rightarrow> json" where
  "messages_text rt j =
     (let a = opt_prop (opt_first (opt_prop (Some j) (jstr ''content''))) (jstr ''text'')
      in case a of
           Some x \<Rightarrow> if truthy a then x else JStr (stringify rt j)
         | None \<Rightarrow> JStr (stringify rt j))"

text \<open>
  The functions of the dispatch return what they return or throw, and the phases they
  report to the log callback.
\<close>

type_synonym 'a logged = "(failure + 'a) \<times> jsstr list"

definition after_log :: "jsstr list \<Rightarrow> 'a logged \<Rightarrow> 'a logged" where
  "after_log phases r = (fst r, phases @ snd r)"

text \<open>
  \<open>doDirect\<close>: the loop over the candidate addresses, with \<open>lastErr\<close>. A response that
  is not \<open>ok\<close>, and any exception of the attempt, moves on to the next address.
\<close>

fun doDirect_from :: "runtime \<Rightarrow> (jsstr \<Rightarrow> request) \<Rightarrow> failure option \<Rightarrow> jsstr list \<Rightarrow> json logged" where
  "doDirect_from rt mk lastErr [] =
     (case lastErr of Some e \<Rightarrow> (Inl e, []) | None \<Rightarrow> (Inr (JStr []), []))"
| "doDirect_from rt mk lastErr (u # us) =
     (case fetch rt (mk u) of
        Inl e \<Rightarrow> after_log [ph_send, ph_exception] (doDirect_from rt mk (Some e) us)
      | Inr res \<Rightarrow>
          if \<not> ok res
          then (case res_text res of
                  Inl e \<Rightarrow> after_log [ph_send, ph_exception] (doDirect_from rt mk (Some e) us)
                | Inr t \<Rightarrow>
                    after_log [ph_send, ph_failed]
                      (doDirect_from rt mk (Some (Failed (err_http @ show_nat (status res)))) us))
          else (case res_json res of
                  Inl e \<Rightarrow> after_log [ph_send, ph_exception] (doDirect_from rt mk (Some e) us)
                | Inr j \<Rightarrow> (Inr (chat_text rt j), [ph_send])))"

definition doDirect :: "runtime \<Rightarrow> provider_config \<Rightarrow> jsstr \<Rightarrow> (jsstr \<times> json) list \<Rightarrow> json logged" where
  "doDirect rt cfg key b = doDirect_from rt (direct_request rt cfg key b) None (urls cfg)"

definition doProxy :: "runtime \<Rightarrow> jsstr \<Rightarrow> jsstr \<Rightarrow> (jsstr \<times> json) list \<Rightarrow> json logged" where
  "doProxy rt proxy key b =
     (if proxy = [] then (Inl (Failed err_no_proxy), [])
      else
        (case fetch rt (proxy_request rt proxy key b) of
           Inl e \<Rightarrow> (Inl e, [ph_proxy_send])
         | Inr res \<Rightarrow>
             if \<not> ok res
             then (case res_text res of
                     Inl e \<Rightarrow> (Inl e, [ph_proxy_send])
                   | Inr t \<Rightarrow>
                       (Inl (Failed (err_proxy_http @ show_nat (status res) @ err_proxy_sep
                                     @ slice 0 200 t)),
                        [ph_proxy_send]))
             else (case res_json res of
                     Inl e \<Rightarrow> (Inl e, [ph_proxy_send])
                   | Inr j \<Rightarrow> (Inr (chat_text rt j), [ph_proxy_send]))))"

text \<open>The choice among \<open>direct\<close>, \<open>proxy\<close> and \<open>auto\<close> for a chat-style provider.\<close>

definition dispatch_chat :: "runtime \<Rightarrow> AIService \<Rightarrow> provider_config \<Rightarrow> (jsstr \<times> json) list \<Rightarrow> json logged" where
  "dispatch_chat rt svc cfg b =
     (case connectionMode svc of
        Direct \<Rightarrow> doDirect rt cfg (apiKey svc) b
      | Proxy \<Rightarrow> doProxy rt (proxyUrl svc) (apiKey svc) b
      | Auto \<Rightarrow>
          (case doDirect rt cfg (apiKey svc) b of
             (Inr t, phases) \<Rightarrow> (Inr t, phases)
           | (Inl e, phases) \<Rightarrow>
               if proxyUrl svc \<noteq> []
               then after_log (phases @ [ph_switch_proxy]) (doProxy rt (proxyUrl svc) (apiKey svc) b)
               else (Inl e, phases)))"

text \<open>
  The message-style provider: one request to the first address, whatever the
  connection mode, and no test of \<open>res.ok\<close>. (\<open>fetch(undefined)\<close> asks for the
  address \<open>undefined\<close>; every entry of the table has an address.)
\<close>

definition dispatch_messages :: "runtime \<Rightarrow> AIService \<Rightarrow> provider_config \<Rightarrow> (jsstr \<times> json) list \<Rightarrow> json logged" where
  "dispatch_messages rt svc cfg b =
     (let u = (case urls cfg of [] \<Rightarrow> jstr ''undefined'' | u0 # us \<Rightarrow> u0)
      in case fetch rt (messages_request rt cfg (apiKey svc) b u) of
           Inl e \<Rightarrow> (Inl e, [ph_send])
         | Inr res \<Rightarrow>
             (case res_json res of
                Inl e \<Rightarrow> (Inl e, [ph_send])
              | Inr j \<Rightarrow> (Inr (messages_text rt j), [ph_send])))"

subsection \<open>The review operation\<close>

text \<open>
  \<open>responseText.slice(0, 1000)\<close>, evaluated for the log callback when there is one:
  strings and arrays have \<open>slice\<close>, other values throw a \<open>TypeError\<close>.
\<close>

definition has_slice :: "json \<Rightarrow> bool" where
  "has_slice v = (case v of JStr s \<Rightarrow> True | JArr xs \<Rightarrow> True | _ \<Rightarrow> False)"

text \<open>
  The \<open>try\<close> block of \<open>reviewCode\<close> up to the point where \<open>responseText\<close> is known:
  its value or the error thrown, the providers warned about so far, and the phases
  reported.
\<close>

definition request_response :: "runtime \<Rightarrow> bool \<Rightarrow> AIService \<Rightarrow> AIModel \<Rightarrow> jsstr \<Rightarrow> (failure + json) \<times> jsstr set \<times> jsstr list" where
  "request_response rt has_log svc m prompt =
     (case getProviderConfig (model_id m) of
        Missing \<Rightarrow> (Inl (Failed err_unknown_provider), warnedProviders svc, [])
      | found \<Rightarrow>
          (let warn = (case found of
                         Own c \<Rightarrow> corsSupported c = Some False \<and> model_id m \<notin> warnedProviders svc
                       | _ \<Rightarrow> False);
               warned = (if warn then insert (model_id m) (warnedProviders svc)
                         else warnedProviders svc);
               hint = (if warn then [ph_hint] else []);
               sent = (case found of
                         Own c \<Rightarrow>
                           (case ptype c of
                              P_anthropic \<Rightarrow> dispatch_messages rt svc c (messages_body m prompt)
                            | _ \<Rightarrow> dispatch_chat rt svc c (chat_body m prompt))
                       | _ \<Rightarrow> (Inr (JStr []), []))
           in case sent of
                (Inl e, phases) \<Rightarrow> (Inl e, warned, hint @ phases)
              | (Inr responseText, phases) \<Rightarrow>
                  if has_log \<and> \<not> has_slice responseText
                  then (Inl TypeError, warned, hint @ phases @ [ph_received])
                  else (Inr responseText, warned, hint @ phases @ [ph_received, ph_content])))"

text \<open>The finding built in the \<open>catch\<close> block of \<open>reviewCode\<close>.\<close>

definition failIssue :: "jsstr \<Rightarrow> CodeIssue" where
  "failIssue src =
     \<lparr>line = Fin 1, column = None, type = T_error, category = C_maintainability,
      message = msg_ai_failed, suggestion = sug_ai_failed,
      code = (case split_lines src of [] \<Rightarrow> [] | l # ls \<Rightarrow> l),
      context = slice 0 3 (split_lines src)\<rparr>"

text \<open>
  \<open>reviewCode(filePath, code, language, standards, log)\<close>: what it returns or throws, the
  state of the client afterwards, and the phases reported to \<open>log\<close> (none when the
  caller gave no callback, \<open>has_log = False\<close>).
\<close>

definition reviewCode :: "runtime \<Rightarrow> bool \<Rightarrow> AIService \<Rightarrow> jsstr \<Rightarrow> jsstr \<Rightarrow> jsstr \<Rightarrow> jsstr \<Rightarrow> (thrown + CodeReview) \<times> AIService \<times> jsstr list" where
  "reviewCode rt has_log svc filePath src language standards =
     (case (if apiKey svc = [] then None else model svc) of
        None \<Rightarrow> (Inl (Error err_no_key_or_model), svc, [])
      | Some m \<Rightarrow>
          (let maskedCode = maskSensitive src;
               prompt = buildPrompt filePath maskedCode language standards;
               early = [ph_request_build, ph_params, ph_rate_limit]
           in case request_response rt has_log svc m prompt of
                (Inr responseText, warned, phases) \<Rightarrow>
                  (let found = normalizeIssuesFromText rt responseText filePath src
                   in (Inr \<lparr>file = filePath, issues = found,
                             summary = sum_done_prefix @ show_nat (length found) @ sum_issues_suffix\<rparr>,
                       svc\<lparr>warnedProviders := warned,
                           stats := (stats svc)\<lparr>success := success (stats svc) + 1\<rparr>\<rparr>,
                       if has_log then early @ phases @ [ph_result] else []))
              | (Inl err, warned, phases) \<Rightarrow>
                  (Inr \<lparr>file = filePath, issues = [failIssue src], summary = sum_ai_failed\<rparr>,
                   svc\<lparr>warnedProviders := warned,
                       stats := (stats svc)\<lparr>fail := fail (stats svc) + 1, lastError := Some err\<rparr>\<rparr>,
                   if has_log then early @ phases @ [ph_failed] else [])))"

subsection \<open>The failure of a request\<close>

text \<open>
  The failure of one direct attempt, and of the relay request; \<open>None\<close> when the attempt
  gives a response that is \<open>ok\<close> and has a JSON body.
\<close>

definition attempt_error :: "runtime \<Rightarrow> request \<Rightarrow> failure option" where
  "attempt_error rt req =
     (case fetch rt req of
        Inl e \<Rightarrow> Some e
      | Inr res \<Rightarrow>
          if \<not> ok res
          then (case res_text res of
                  Inl e \<Rightarrow> Some e
                | Inr t \<Rightarrow> Some (Failed (err_http @ show_nat (status res))))
          else (case res_json res of Inl e \<Rightarrow> Some e | Inr j \<Rightarrow> None))"

definition relay_error :: "runtime \<Rightarrow> jsstr \<Rightarrow> jsstr \<Rightarrow> (jsstr \<times> json) list \<Rightarrow> failure option" where
  "relay_error rt proxy key b =
     (if proxy = [] then Some (Failed err_no_proxy)
      else (case fetch rt (proxy_request rt proxy key b) of
              Inl e \<Rightarrow> Some e
            | Inr res \<Rightarrow>
                if \<not> ok res
                then (case res_text res of
                        Inl e \<Rightarrow> Some e
                      | Inr t \<Rightarrow>
                          Some (Failed (err_proxy_http @ show_nat (status res) @ err_proxy_sep
                                        @ slice 0 200 t)))
                else (case res_json res of Inl e \<Rightarrow> Some e | Inr j \<Rightarrow> None)))"

text \<open>The content \<open>getMockFileContent\<close> falls back on (a comment saying: file content).\<close>

definition mock_content :: jsstr where
  "mock_content = jstr ''// '' @ [0x6587, 0x4EF6, 0x5185, 0x5BB9]"

text \<open>The message \<open>cloneRepository\<close> returns: fetched\<close>

definition clone_msg_prefix :: jsstr where
  "clone_msg_prefix = [0x6210, 0x529F, 0x83B7, 0x53D6] @ jstr '' ''"

text \<open>n files (also the end of the detail of the file-list event).\<close>

definition clone_msg_suffix :: jsstr where
  "clone_msg_suffix = jstr '' '' @ [0x4E2A, 0x6587, 0x4EF6]"

text \<open>The texts shown as current file: fetching the repository,\<close>

definition cur_fetching :: jsstr where
  "cur_fetching =
     [0x6B63, 0x5728, 0x83B7, 0x53D6, 0x4ED3, 0x5E93, 0x4EE3, 0x7801] @ jstr ''...''"

text \<open>scanning the code files,\<close>

definition cur_scanning :: jsstr where
  "cur_scanning =
     [0x6B63, 0x5728, 0x626B, 0x63CF, 0x4EE3, 0x7801, 0x6587, 0x4EF6] @ jstr ''...''"

text \<open>found\<close>

definition cur_found_prefix :: jsstr where
  "cur_found_prefix = [0x627E, 0x5230]"

text \<open>n code files,\<close>

definition cur_found_suffix :: jsstr where
  "cur_found_suffix = [0x4E2A, 0x4EE3, 0x7801, 0x6587, 0x4EF6]"

text \<open>and review done.\<close>

definition cur_done :: jsstr where
  "cur_done = [0x5BA1, 0x67E5, 0x5B8C, 0x6210]"

text \<open>The messages of the log events: code fetched,\<close>

definition log_fetched :: jsstr where
  "log_fetched = [0x4EE3, 0x7801, 0x83B7, 0x53D6]"

text \<open>the file list,\<close>

definition log_file_list :: jsstr where
  "log_file_list = [0x6587, 0x4EF6, 0x5217, 0x8868]"

text \<open>an empty file skipped,\<close>

definition log_empty_skipped :: jsstr where
  "log_empty_skipped = [0x7A7A, 0x6587, 0x4EF6, 0x8DF3, 0x8FC7]"

text \<open>the language detected,\<close>

definition log_language :: jsstr where
  "log_language = [0x8BED, 0x8A00, 0x68C0, 0x6D4B]"

text \<open>the analysis of a file done,\<close>

definition log_analysed :: jsstr where
  "log_analysed = [0x5206, 0x6790, 0x5B8C, 0x6210]"

text \<open>the review done,\<close>

definition log_done :: jsstr where
  "log_done = [0x5BA1, 0x67E5, 0x5B8C, 0x6210]"

text \<open>the review went wrong,\<close>

definition log_session_failed :: jsstr where
  "log_session_failed = [0x5BA1, 0x67E5, 0x8FC7, 0x7A0B, 0x51FA, 0x9519]"

text \<open>a file too large skipped,\<close>

definition log_too_large :: jsstr where
  "log_too_large = [0x6587, 0x4EF6, 0x8FC7, 0x5927, 0x8DF3, 0x8FC7]"

text \<open>the basic check,\<close>

definition log_basic :: jsstr where
  "log_basic = [0x57FA, 0x7840, 0x68C0, 0x67E5]"

text \<open>the AI analysis failed,\<close>

definition log_ai_failed :: jsstr where
  "log_ai_failed = jstr ''AI'' @ [0x5206, 0x6790, 0x5931, 0x8D25]"

text \<open>and the review of a file failed.\<close>

definition log_file_failed :: jsstr where
  "log_file_failed = [0x6587, 0x4EF6, 0x5BA1, 0x67E5, 0x5931, 0x8D25]"

text \<open>The pieces of the details of the log events: an arrow,\<close>

definition detail_arrow :: jsstr where
  "detail_arrow = jstr '' -> ''"

text \<open>an arrow and the word for problems,\<close>

definition detail_arrow_issues :: jsstr where
  "detail_arrow_issues = jstr '' -> '' @ [0x95EE, 0x9898] @ jstr '' ''"

text \<open>the word for problems,\<close>

definition detail_issues :: jsstr where
  "detail_issues = jstr '' '' @ [0x95EE, 0x9898]"

text \<open>analysed\<close>

definition detail_analysed :: jsstr where
  "detail_analysed = [0x5206, 0x6790] @ jstr '' ''"

text \<open>n files, found\<close>

definition detail_files_found :: jsstr where
  "detail_files_found = jstr '' '' @ [0x6587, 0x4EF6, 0xFF0C, 0x53D1, 0x73B0] @ jstr '' ''"

text \<open>the size of a file in KB, in parentheses,\<close>

definition detail_kb_open :: jsstr where
  "detail_kb_open = jstr '' (''"

text \<open>(The end of that.)\<close>

definition detail_kb_close :: jsstr where
  "detail_kb_close = jstr ''KB)''"

text \<open>and a dash.\<close>

definition detail_dash :: jsstr where
  "detail_dash = jstr '' - ''"

text \<open>The error of a session without files (no code file found).\<close>

definition err_no_files :: jsstr where
  "err_no_files = [0x672A, 0x627E, 0x5230, 0x4EE3, 0x7801, 0x6587, 0x4EF6]"

text \<open>The notes of a review: file too large, analysis skipped;\<close>

definition note_too_large :: jsstr where
  "note_too_large = [0x6587, 0x4EF6, 0x8FC7, 0x5927, 0xFF0C, 0x8DF3, 0x8FC7, 0x5206, 0x6790]"

text \<open>found\<close>

definition note_found_prefix :: jsstr where
  "note_found_prefix = [0x53D1, 0x73B0]"

text \<open>n problems;\<close>

definition note_found_suffix :: jsstr where
  "note_found_suffix = [0x4E2A, 0x95EE, 0x9898]"

text \<open>basic check done, found\<close>

definition note_basic_prefix :: jsstr where
  "note_basic_prefix =
     [0x57FA, 0x7840, 0x68C0, 0x67E5, 0x5B8C, 0x6210, 0xFF0C, 0x53D1, 0x73B0]"

text \<open>n problems (AI analysis failed);\<close>

definition note_basic_suffix :: jsstr where
  "note_basic_suffix =
     [0x4E2A, 0x95EE, 0x9898] @ jstr '' (AI'' @ [0x5206, 0x6790, 0x5931, 0x8D25] @ jstr '')''"

text \<open>review failed, followed by the message of the error.\<close>

definition note_failed_prefix :: jsstr where
  "note_failed_prefix = [0x5BA1, 0x67E5, 0x5931, 0x8D25] @ jstr '': ''"

text \<open>The two characters that mark a failure in a note.\<close>

definition failure_marker :: jsstr where
  "failure_marker = [0x5931, 0x8D25]"

section \<open>The source provider\<close>

text \<open>
  \<open>GitService\<close> keeps the files of the repository in a \<open>Map\<close> from path to file, which
  remembers the order in which its keys were first set. Of a \<open>CodeFile\<close> the path and
  the content are kept; its \<open>language\<close> and \<open>size\<close> are read by no operation of the
  pipeline and are left out, as is the \<open>localStoragePath\<close> of the service. The content
  is declared a string, but it is what the GitHub API answered, which need not be one.
\<close>

record CodeFile =
  file_path :: jsstr
  file_content :: json

record GitService =
  repositoryFiles :: "(jsstr \<times> CodeFile) list"

text \<open>\<open>map.set(key, value)\<close>: a key that is present keeps its place.\<close>

definition map_set :: "('k \<times> 'v) list \<Rightarrow> 'k \<Rightarrow> 'v \<Rightarrow> ('k \<times> 'v) list" where
  "map_set m key v =
     (if key \<in> fst ` set m then map (\<lambda>(k, old). if k = key then (k, v) else (k, old)) m
      else m @ [(key, v)])"

text \<open>
  \<open>getRepositoryFiles\<close> and \<open>getFileContent\<close> ask the GitHub API inside a \<open>try\<close> block
  whose \<open>catch\<close> returns a fallback, so both always return. What their \<open>try\<close> blocks
  return depends on the address, the network and the decoding of the answer, and is taken
  as given, each \<open>None\<close> when the block throws: for an address and a branch the list
  of paths (they are strings, since \<open>isCodeFile\<close> has called \<open>toLowerCase\<close> on each), for
  an address, a branch and a path the decoded text of a \<open>base64\<close> answer, and else the
  \<open>content\<close> of the answer, \<open>null\<close> for none.
\<close>

record github =
  listed :: "jsstr \<Rightarrow> jsstr \<Rightarrow> jsstr list option"
  fetched :: "jsstr \<Rightarrow> jsstr \<Rightarrow> jsstr \<Rightarrow> json option"

definition getMockCodeFiles :: "jsstr list" where
  "getMockCodeFiles =
     map jstr [''src/main.js'', ''src/components/Button.js'', ''src/utils/helpers.js'',
       ''src/services/api.js'', ''src/hooks/useAuth.js'', ''package.json'', ''README.md'']"

text \<open>\<open>x || d\<close> for a value \<open>x\<close> and a string \<open>d\<close>.\<close>

definition or_else :: "json \<Rightarrow> jsstr \<Rightarrow> json" where
  "or_else x d = (if truthy (Some x) then x else JStr d)"

text \<open>\<open>file?.content || '// ...'\<close>\<close>

definition getMockFileContent :: "GitService \<Rightarrow> jsstr \<Rightarrow> json" where
  "getMockFileContent git filePath =
     (case map_of (repositoryFiles git) filePath of
        Some f \<Rightarrow> or_else (file_content f) mock_content
      | None \<Rightarrow> JStr mock_content)"

definition getRepositoryFiles :: "github \<Rightarrow> jsstr \<Rightarrow> jsstr \<Rightarrow> jsstr list" where
  "getRepositoryFiles hub repositoryUrl branchName =
     (case listed hub repositoryUrl branchName of
        Some codeFiles \<Rightarrow> codeFiles
      | None \<Rightarrow> getMockCodeFiles)"

text \<open>
  \<open>getFileContent\<close> returns the decoded text as it is and \<open>contentData.content || ''\<close>
  otherwise; for a text the two are the same.
\<close>

definition getFileContent :: "github \<Rightarrow> GitService \<Rightarrow> jsstr \<Rightarrow> jsstr \<Rightarrow> jsstr \<Rightarrow> json" where
  "getFileContent hub git repositoryUrl branchName filePath =
     (case fetched hub repositoryUrl branchName filePath of
        Some content \<Rightarrow> or_else content []
      | None \<Rightarrow> getMockFileContent git filePath)"

text \<open>
  The loop of \<open>cloneRepository\<close> over the paths, with the number of files stored so far.
  Its body cannot throw (\<open>getFileContent\<close> returns for every path, and what it returns
  is neither \<open>null\<close> nor \<open>undefined\<close>, so it has a \<open>length\<close>), so the \<open>catch\<close>
  inside the loop is never entered; the pause after each file is not modelled.
\<close>

fun fetch_files :: "github \<Rightarrow> jsstr \<Rightarrow> jsstr \<Rightarrow> jsstr list \<Rightarrow> GitService \<times> nat \<Rightarrow> GitService \<times> nat" where
  "fetch_files hub repositoryUrl branchName [] (git, successCount) = (git, successCount)"
| "fetch_files hub repositoryUrl branchName (filePath # rest) (git, successCount) =
     (let content = getFileContent hub git repositoryUrl branchName filePath
      in fetch_files hub repositoryUrl branchName rest
           (git\<lparr>repositoryFiles :=
                  map_set (repositoryFiles git) filePath
                    \<lparr>file_path = filePath, file_content = content\<rparr>\<rparr>,
            successCount + 1))"

text \<open>
  \<open>cloneRepository(url, branch, localPath)\<close>: the message it returns and the state of
  the service afterwards. Nothing in its \<open>try\<close> block throws, so the outer \<open>catch\<close>,
  which would load three built-in files, is never entered.
\<close>

definition cloneRepository :: "github \<Rightarrow> GitService \<Rightarrow> jsstr \<Rightarrow> jsstr \<Rightarrow> jsstr \<times> GitService" where
  "cloneRepository hub git repositoryUrl branchName =
     (let cleared = git\<lparr>repositoryFiles := []\<rparr>;
          filePaths = getRepositoryFiles hub repositoryUrl branchName;
          (stored, successCount) = fetch_files hub repositoryUrl branchName filePaths (cleared, 0)
      in (clone_msg_prefix @ show_nat successCount @ clone_msg_suffix, stored))"

text \<open>\<open>Array.from(this.repositoryFiles.keys())\<close>\<close>

definition getCodeFiles :: "GitService \<Rightarrow> jsstr list" where
  "getCodeFiles git = map fst (repositoryFiles git)"

text \<open>\<open>file?.content || ''\<close>: the stored content, the empty string for an unknown path.\<close>

definition readFileContent :: "GitService \<Rightarrow> jsstr \<Rightarrow> json" where
  "readFileContent git filePath =
     (case map_of (repositoryFiles git) filePath of
        Some f \<Rightarrow> or_else (file_content f) []
      | None \<Rightarrow> JStr [])"

section \<open>The orchestrator\<close>

datatype review_status = Idle | Cloning | Analyzing | Completed | Errored

record ReviewProgress =
  totalFiles :: nat
  processedFiles :: nat
  currentFile :: jsstr
  status :: review_status
  error :: "jsstr option"

text \<open>
  The result of a session. Its \<open>id\<close>, \<open>startTime\<close>, \<open>endTime\<close> and \<open>duration\<close> are
  readings of the clock and are left out.
\<close>

record ReviewResult =
  repository :: jsstr
  branch :: jsstr
  standards :: jsstr
  reviews :: "CodeReview list"
  summary :: ReviewSummary

datatype log_level = L_info | L_warning | L_error

text \<open>
  The third argument of \<open>emitLog\<close>: the detail text of an event of the orchestrator, or
  the info text that the client passes along with a phase, which is not modelled (it
  holds readings of the clock and renderings of requests).
\<close>

datatype log_detail = Detail jsstr | Client_info

type_synonym log_event = "log_level \<times> jsstr \<times> log_detail"

text \<open>
  What a session changes: the progress of the orchestrator, the progress values and log
  events handed to the registered callbacks, in order (the callbacks are taken to
  return), the state of the source provider and the state of the client.
\<close>

record session_state =
  progress :: ReviewProgress
  progressEvents :: "ReviewProgress list"
  logEvents :: "log_event list"
  gitService :: GitService
  aiService :: AIService

definition updateProgress :: "(ReviewProgress \<Rightarrow> ReviewProgress) \<Rightarrow> session_state \<Rightarrow> session_state" where
  "updateProgress updates w =
     (let p = updates (progress w) in w\<lparr>progress := p, progressEvents := progressEvents w @ [p]\<rparr>)"

definition emitLog :: "log_level \<Rightarrow> jsstr \<Rightarrow> log_detail \<Rightarrow> session_state \<Rightarrow> session_state" where
  "emitLog level msg details w = w\<lparr>logEvents := logEvents w @ [(level, msg, details)]\<rparr>"

definition languageMap :: "(jsstr \<times> jsstr) list" where
  "languageMap =
     map (\<lambda>(k, v). (jstr k, jstr v))
       [(''js'', ''javascript''), (''jsx'', ''javascript''), (''ts'', ''typescript''),
        (''tsx'', ''typescript''), (''py'', ''python''), (''java'', ''java''),
        (''kt'', ''kotlin''), (''cpp'', ''cpp''), (''c'', ''c''), (''cs'', ''csharp''),
        (''go'', ''go''), (''rs'', ''rust''), (''php'', ''php''), (''rb'', ''ruby''),
        (''swift'', ''swift''), (''vue'', ''vue''), (''svelte'', ''svelte'')]"

text \<open>
  \<open>detectLanguage(filePath)\<close>: the piece after the last dot, in lower case, looked up in
  the table. A name that the table inherits from \<open>Object.prototype\<close> finds that member,
  which the callers print into their texts.
\<close>

definition detectLanguage :: "runtime \<Rightarrow> jsstr \<Rightarrow> jsstr" where
  "detectLanguage rt filePath =
     (let ext = toLowerCase (last (split_on 0x2E filePath)) in
      case map_of languageMap ext of
        Some language \<Rightarrow> language
      | None \<Rightarrow> if ext \<in> set object_prototype_names then inheritedText rt ext
                 else jstr ''text'')"

text \<open>
  \<open>(content.length / 1024).toFixed(1)\<close>: the quotient is exact, and \<open>toFixed\<close> takes
  the nearest number of tenths, the larger one of two that are equally near.
\<close>

definition kilobytes :: "nat \<Rightarrow> jsstr" where
  "kilobytes n =
     (let tenths = (20 * n + 1024) div 2048
      in show_nat (tenths div 10) @ jstr ''.'' @ show_nat (tenths mod 10))"

text \<open>
  \<open>analyzeFile(aiService, filePath, content, language, standardsContent)\<close>. The remote
  review is called with a log callback that forwards each phase as an info event.
\<close>

definition analyzeFile :: "runtime \<Rightarrow> session_state \<Rightarrow> jsstr \<Rightarrow> jsstr \<Rightarrow> jsstr \<Rightarrow> jsstr \<Rightarrow> CodeReview \<times> session_state" where
  "analyzeFile rt w filePath content language standardsContent =
     (if length content > 50000
      then (\<lparr>file = filePath, issues = [], summary = note_too_large\<rparr>,
            emitLog L_warning log_too_large
              (Detail (filePath @ detail_kb_open @ kilobytes (length content) @ detail_kb_close)) w)
      else
        (let basicIssues = performBasicCodeCheck filePath content language;
             w1 = emitLog L_info log_basic
                    (Detail (filePath @ detail_arrow @ show_nat (length basicIssues)
                             @ detail_issues)) w
         in case reviewCode rt True (aiService w1) filePath content language standardsContent of
              (Inr aiReview, svc, phases) \<Rightarrow>
                (let w2 = foldl (\<lambda>s phase. emitLog L_info phase Client_info s)
                            (w1\<lparr>aiService := svc\<rparr>) phases;
                     allIssues = basicIssues @ issues aiReview
                 in (\<lparr>file = filePath, issues = allIssues,
                      summary = note_found_prefix @ show_nat (length allIssues) @ note_found_suffix\<rparr>,
                     w2))
            | (Inl err, svc, phases) \<Rightarrow>
                (let w2 = foldl (\<lambda>s phase. emitLog L_info phase Client_info s)
                            (w1\<lparr>aiService := svc\<rparr>) phases;
                     basicIssues = performBasicCodeCheck filePath content language
                 in (\<lparr>file = filePath, issues = basicIssues,
                      summary = note_basic_prefix @ show_nat (length basicIssues) @ note_basic_suffix\<rparr>,
                     emitLog L_error log_ai_failed (Detail filePath) w2))))"

text \<open>
  The loop of \<open>executeReview\<close> over the files from index \<open>i\<close> on, with the reviews
  collected so far. \<open>readFileContent\<close> returns; \<open>content.trim()\<close> throws a
  \<open>TypeError\<close> when the content is not a string (no value of JSON but a string has a
  \<open>trim\<close> that can be called), and the \<open>catch\<close> of the loop then logs an error and
  appends a review without findings and with the note \<open>review failed\<close>. Nothing else in
  the \<open>try\<close> block throws: \<open>detectLanguage\<close> is defined on every string, and
  \<open>analyzeFile\<close> catches what the remote review throws. The pause of half a second
  after each file is not modelled.
\<close>

fun review_files :: "runtime \<Rightarrow> jsstr \<Rightarrow> nat \<Rightarrow> jsstr list \<Rightarrow> session_state \<times> CodeReview list \<Rightarrow> session_state \<times> CodeReview list" where
  "review_files rt standardsContent i [] (w, collected) = (w, collected)"
| "review_files rt standardsContent i (filePath # rest) (w, collected) =
     (let w1 = updateProgress (\<lambda>p. p\<lparr>currentFile := filePath, processedFiles := i\<rparr>) w
      in case readFileContent (gitService w1) filePath of
           JStr content \<Rightarrow>
             if trim content = []
             then review_files rt standardsContent (i + 1) rest
                    (emitLog L_warning log_empty_skipped (Detail filePath) w1, collected)
             else
               (let language = detectLanguage rt filePath;
                    w2 = emitLog L_info log_language
                           (Detail (filePath @ detail_arrow @ language)) w1;
                    (review, w3) = analyzeFile rt w2 filePath content language standardsContent
                in review_files rt standardsContent (i + 1) rest
                     (emitLog L_info log_analysed
                        (Detail (filePath @ detail_arrow_issues
                                 @ show_nat (length (issues review))))
                        w3,
                      collected @ [review]))
         | other \<Rightarrow>
             (let errorMessage = trimFailure rt other
              in review_files rt standardsContent (i + 1) rest
                   (emitLog L_error log_file_failed
                      (Detail (filePath @ detail_dash @ errorMessage)) w1,
                    collected @ [\<lparr>file = filePath, issues = [],
                                   summary = note_failed_prefix @ errorMessage\<rparr>])))"

text \<open>The outer \<open>catch\<close> of \<open>executeReview\<close>.\<close>

definition fail_session :: "thrown \<Rightarrow> session_state \<Rightarrow> (thrown + ReviewResult) \<times> session_state" where
  "fail_session e w =
     (case e of
        Error errorMessage \<Rightarrow>
          (Inl e,
           emitLog L_error log_session_failed (Detail errorMessage)
             (updateProgress (\<lambda>p. p\<lparr>status := Errored, error := Some errorMessage\<rparr>) w)))"

text \<open>
  \<open>executeReview(repositoryUrl, branch, standardsContent)\<close>. Neither \<open>cloneRepository\<close>
  nor \<open>getCodeFiles\<close> throws, so the session fails only for want of files.
\<close>

definition executeReview :: "runtime \<Rightarrow> github \<Rightarrow> session_state \<Rightarrow> jsstr \<Rightarrow> jsstr \<Rightarrow> jsstr \<Rightarrow> (thrown + ReviewResult) \<times> session_state" where
  "executeReview rt hub w repositoryUrl branchName standardsContent =
     (let w1 = updateProgress
                 (\<lambda>p. p\<lparr>status := Cloning, totalFiles := 0, processedFiles := 0,
                        currentFile := cur_fetching\<rparr>) w;
          (cloneResult, git) = cloneRepository hub (gitService w1) repositoryUrl branchName;
          w2 = emitLog L_info log_fetched (Detail cloneResult) (w1\<lparr>gitService := git\<rparr>);
          w3 = updateProgress (\<lambda>p. p\<lparr>currentFile := cur_scanning\<rparr>) w2;
          codeFiles = getCodeFiles (gitService w3)
      in if length codeFiles = 0 then fail_session (Error err_no_files) w3
         else
           (let w4 = updateProgress
                       (\<lambda>p. p\<lparr>totalFiles := length codeFiles,
                              currentFile := cur_found_prefix @ show_nat (length codeFiles)
                                             @ cur_found_suffix\<rparr>) w3;
                w5 = emitLog L_info log_file_list
                       (Detail (show_nat (length codeFiles) @ clone_msg_suffix)) w4;
                w6 = updateProgress (\<lambda>p. p\<lparr>status := Analyzing\<rparr>) w5;
                (w7, collected) = review_files rt standardsContent 0 codeFiles (w6, []);
                found = generateSummary collected;
                w8 = emitLog L_info log_done
                       (Detail (detail_analysed @ show_nat (ReviewSummary.totalFiles found)
                                @ detail_files_found @ show_nat (totalIssues found)
                                @ detail_issues)) w7;
                result = \<lparr>repository = repositoryUrl, branch = branchName,
                          standards = standardsContent, reviews = collected,
                          summary = found\<rparr>;
                w9 = updateProgress
                       (\<lambda>p. p\<lparr>status := Completed, currentFile := cur_done\<rparr>) w8
            in (Inr result, w9)))"

section \<open>Auxiliary notions and example inputs\<close>

text \<open>All findings of a list of reviews.\<close>

definition all_issues :: "CodeReview list \<Rightarrow> CodeIssue list" where
  "all_issues rs = concat (map issues rs)"

text \<open>
  An environment for examples: a network that cannot be reached, built-in conversions
  that are never asked, a client without credential, and a fresh orchestrator.
\<close>

definition example_runtime :: runtime where
  "example_runtime =
     \<lparr>fetch = (\<lambda>r. Inl (Failed (jstr ''Failed to fetch''))), parse = (\<lambda>s. None),
      stringify = (\<lambda>j. jstr ''null''), toNumber = (\<lambda>j. None), toStr = (\<lambda>j. None),
      inheritedText = (\<lambda>n. jstr ''[object Object]''),
      trimFailure = (\<lambda>v. jstr ''content.trim is not a function'')\<rparr>"

definition fresh_client :: AIService where
  "fresh_client =
     \<lparr>apiKey = [], model = None, connectionMode = Auto, proxyUrl = [],
      warnedProviders = {}, stats = \<lparr>success = 0, fail = 0, lastError = None\<rparr>\<rparr>"

definition fresh_session :: session_state where
  "fresh_session =
     \<lparr>progress = \<lparr>totalFiles = 0, processedFiles = 0, currentFile = [], status = Idle,
                   error = None\<rparr>,
      progressEvents = [], logEvents = [], gitService = \<lparr>repositoryFiles = []\<rparr>,
      aiService = fresh_client\<rparr>"

text \<open>
  A GitHub that lists the given files, each path with the value it answers as content,
  whatever the address and the branch; and one whose contents are all texts.
\<close>

definition hub_with :: "(jsstr \<times> json) list \<Rightarrow> github" where
  "hub_with files = \<lparr>listed = (\<lambda>u b. Some (map fst files)), fetched = (\<lambda>u b p. map_of files p)\<rparr>"

definition hub_of :: "(jsstr \<times> jsstr) list \<Rightarrow> github" where
  "hub_of files = hub_with (map (\<lambda>(p, c). (p, JStr c)) files)"

text \<open>
  A file the loop passes over: its content is a string that is empty after trimming.
\<close>

definition is_blank :: "GitService \<Rightarrow> jsstr \<Rightarrow> bool" where
  "is_blank git p = (case readFileContent git p of JStr content \<Rightarrow> trim content = [] | _ \<Rightarrow> False)"

text \<open>A file whose content is a string of at most 50,000 code units.\<close>

definition is_small :: "GitService \<Rightarrow> jsstr \<Rightarrow> bool" where
  "is_small git p = (case readFileContent git p of JStr content \<Rightarrow> length content \<le> 50000 | _ \<Rightarrow> False)"

text \<open>A file whose content is not a string.\<close>

definition is_no_text :: "GitService \<Rightarrow> jsstr \<Rightarrow> bool" where
  "is_no_text git p = (case readFileContent git p of JStr content \<Rightarrow> False | _ \<Rightarrow> True)"

text \<open>Two states of the client with the same configuration.\<close>

definition same_config :: "AIService \<Rightarrow> AIService \<Rightarrow> bool" where
  "same_config a b =
     (apiKey b = apiKey a \<and> model b = model a \<and> connectionMode b = connectionMode a
      \<and> proxyUrl b = proxyUrl a)"

text \<open>A client for which the remote review throws: it has no credential or no model.\<close>

definition no_credential :: "AIService \<Rightarrow> bool" where
  "no_credential svc = (apiKey svc = [] \<or> model svc = None)"

text \<open>
  The review the loop appends for a file that is not passed over: for a content that is a
  string, the result of \<open>analyzeFile\<close> on it, run in some state whose client has the
  configuration \<open>svc\<close>; for another content, the review of the \<open>catch\<close> block.
\<close>

definition review_of :: "runtime \<Rightarrow> GitService \<Rightarrow> jsstr \<Rightarrow> AIService \<Rightarrow> jsstr \<Rightarrow> CodeReview \<Rightarrow> bool" where
  "review_of rt git standardsContent svc p r =
     (case readFileContent git p of
        JStr content \<Rightarrow>
          (\<exists>w0. same_config svc (aiService w0)
               \<and> r = fst (analyzeFile rt w0 p content (detectLanguage rt p) standardsContent))
      | other \<Rightarrow>
          r = \<lparr>file = p, issues = [], summary = note_failed_prefix @ trimFailure rt other\<rparr>)"

text \<open>
  The error event of a file: of the orchestrator when the content is not a string, of
  \<open>analyzeFile\<close> when the remote review has thrown.
\<close>

definition error_event :: "runtime \<Rightarrow> GitService \<Rightarrow> jsstr \<Rightarrow> log_event" where
  "error_event rt git p =
     (case readFileContent git p of
        JStr content \<Rightarrow> (L_error, log_ai_failed, Detail p)
      | other \<Rightarrow> (L_error, log_file_failed, Detail (p @ detail_dash @ trimFailure rt other)))"

text \<open>
  A file in whose pipeline something throws: its content is not a string, or it is a
  string that is not blank and has at most 50,000 code units, and the client has no
  credential or no model.
\<close>

definition raises :: "AIService \<Rightarrow> GitService \<Rightarrow> jsstr \<Rightarrow> bool" where
  "raises svc git p =
     (is_no_text git p \<or> (no_credential svc \<and> is_small git p \<and> \<not> is_blank git p))"

text \<open>The error events among the log events a session has appended to those of \<open>w\<close>.\<close>

definition appended_errors :: "session_state \<Rightarrow> session_state \<Rightarrow> log_event list" where
  "appended_errors w w' =
     filter (\<lambda>e. fst e = L_error) (drop (length (logEvents w)) (logEvents w'))"

text \<open>A client with a credential and the model \<open>gpt-4\<close>, and a session that uses it.\<close>

definition gpt4 :: AIModel where
  "gpt4 = \<lparr>model_id = jstr ''gpt-4'', name = jstr ''GPT-4'', provider = jstr ''OpenAI'',
            description = [], maxTokens = 8192, supported = True\<rparr>"

definition keyed_client :: AIService where
  "keyed_client = fresh_client\<lparr>apiKey := jstr ''sk-1'', model := Some gpt4\<rparr>"

definition keyed_session :: session_state where
  "keyed_session = fresh_session\<lparr>aiService := keyed_client\<rparr>"

text \<open>
  A network in which only a relay at \<open>http://relay\<close> answers, with a chat reply whose
  content is the given text, and a \<open>JSON.parse\<close> given by its values on three texts.
\<close>

definition relay_reply :: "jsstr \<Rightarrow> json" where
  "relay_reply t =
     JObj [(jstr ''choices'',
            JArr [JObj [(jstr ''message'', JObj [(jstr ''content'', JStr t)])]])]"

definition example_parse :: "jsstr \<Rightarrow> json option" where
  "example_parse s =
     (if s = jstr ''[]'' then Some (JArr [])
      else if s = jstr ''[{}]'' then Some (JArr [JObj []])
      else if s = jstr ''[{},null]'' then Some (JArr [JObj [], JNull])
      else None)"

definition relay_runtime :: "jsstr \<Rightarrow> runtime" where
  "relay_runtime t =
     example_runtime
       \<lparr>fetch := (\<lambda>req. if url req = jstr ''http://relay/v1/chat/completions''
                         then Inr \<lparr>ok = True, response.status = 200, res_text = Inr [],
                                   res_json = Inr (relay_reply t)\<rparr>
                         else Inl (Failed (jstr ''Failed to fetch''))),
        parse := example_parse\<rparr>"

definition claude :: AIModel where
  "claude = \<lparr>model_id = jstr ''claude-3-sonnet'', name = jstr ''Claude 3 Sonnet'',
              provider = jstr ''Anthropic'', description = [], maxTokens = 200000,
              supported = True\<rparr>"

definition relay_client :: "AIModel \<Rightarrow> AIService" where
  "relay_client m = fresh_client\<lparr>apiKey := jstr ''sk-1'', model := Some m,
                                  proxyUrl := jstr ''http://relay''\<rparr>"

section \<open>The summary of a session\<close>

lemma tally_issue_fields [simp]:
  "ReviewSummary.totalFiles (tally_issue s i) = ReviewSummary.totalFiles s"
  "totalIssues (tally_issue s i) = totalIssues s"
  "filesWithIssues (tally_issue s i) = filesWithIssues s"
  "issuesByType (tally_issue s i) = bump (issuesByType s) (type i)"
  "issuesByCategory (tally_issue s i) = bump (issuesByCategory s) (category i)"
  by (simp_all add: tally_issue_def)

lemma bump_apply:
  "bump m k k' = (if k' = k then Some (tally_value m k + 1) else m k')"
  by (simp add: bump_def)

lemma foldl_tally_issue_counts:
  "totalIssues (foldl tally_issue s xs) = totalIssues s"
  "filesWithIssues (foldl tally_issue s xs) = filesWithIssues s"
  "ReviewSummary.totalFiles (foldl tally_issue s xs) = ReviewSummary.totalFiles s"
  by (induction xs arbitrary: s) simp_all

lemma foldl_tally_issue_type:
  "issuesByType (foldl tally_issue s xs) k =
     (if length (filter (\<lambda>i. type i = k) xs) = 0 then issuesByType s k
      else Some (tally_value (issuesByType s) k + length (filter (\<lambda>i. type i = k) xs)))"
  by (induction xs arbitrary: s) (auto simp: bump_apply tally_value_def)

lemma foldl_tally_issue_category:
  "issuesByCategory (foldl tally_issue s xs) k =
     (if length (filter (\<lambda>i. category i = k) xs) = 0 then issuesByCategory s k
      else Some (tally_value (issuesByCategory s) k
                 + length (filter (\<lambda>i. category i = k) xs)))"
  by (induction xs arbitrary: s) (auto simp: bump_apply tally_value_def)

lemma tally_review_counts:
  "totalIssues (tally_review s r) = totalIssues s + length (issues r)"
  "filesWithIssues (tally_review s r) = filesWithIssues s + (if issues r = [] then 0 else 1)"
  "ReviewSummary.totalFiles (tally_review s r) = ReviewSummary.totalFiles s"
  by (simp_all add: tally_review_def foldl_tally_issue_counts)

lemma tally_review_type:
  "issuesByType (tally_review s r) k =
     (if length (filter (\<lambda>i. type i = k) (issues r)) = 0 then issuesByType s k
      else Some (tally_value (issuesByType s) k
                 + length (filter (\<lambda>i. type i = k) (issues r))))"
  by (simp add: tally_review_def foldl_tally_issue_type)

lemma tally_review_category:
  "issuesByCategory (tally_review s r) k =
     (if length (filter (\<lambda>i. category i = k) (issues r)) = 0 then issuesByCategory s k
      else Some (tally_value (issuesByCategory s) k
                 + length (filter (\<lambda>i. category i = k) (issues r))))"
  by (simp add: tally_review_def foldl_tally_issue_category)

lemma foldl_tally_review_counts:
  "totalIssues (foldl tally_review s rs)
     = totalIssues s + sum_list (map (\<lambda>r. length (issues r)) rs)"
  "filesWithIssues (foldl tally_review s rs)
     = filesWithIssues s + length (filter (\<lambda>r. issues r \<noteq> []) rs)"
  "ReviewSummary.totalFiles (foldl tally_review s rs) = ReviewSummary.totalFiles s"
  by (induction rs arbitrary: s) (simp_all add: tally_review_counts)

lemma foldl_tally_review_type:
  "issuesByType (foldl tally_review s rs) k =
     (if length (filter (\<lambda>i. type i = k) (all_issues rs)) = 0 then issuesByType s k
      else Some (tally_value (issuesByType s) k
                 + length (filter (\<lambda>i. type i = k) (all_issues rs))))"
  by (induction rs arbitrary: s) (auto simp: tally_review_type all_issues_def tally_value_def)

lemma foldl_tally_review_category:
  "issuesByCategory (foldl tally_review s rs) k =
     (if length (filter (\<lambda>i. category i = k) (all_issues rs)) = 0 then issuesByCategory s k
      else Some (tally_value (issuesByCategory s) k
                 + length (filter (\<lambda>i. category i = k) (all_issues rs))))"
  by (induction rs arbitrary: s)
     (auto simp: tally_review_category all_issues_def tally_value_def)

lemma generateSummary_counts:
  "ReviewSummary.totalFiles (generateSummary rs) = length rs"
  "totalIssues (generateSummary rs) = sum_list (map (\<lambda>r. length (issues r)) rs)"
  "filesWithIssues (generateSummary rs) = length (filter (\<lambda>r. issues r \<noteq> []) rs)"
  by (simp_all add: generateSummary_def foldl_tally_review_counts)

lemma generateSummary_byType:
  "issuesByType (generateSummary rs) k =
     (if length (filter (\<lambda>i. type i = k) (all_issues rs)) = 0 then None
      else Some (length (filter (\<lambda>i. type i = k) (all_issues rs))))"
  by (simp add: generateSummary_def foldl_tally_review_type tally_value_def)

lemma generateSummary_byCategory:
  "issuesByCategory (generateSummary rs) k =
     (if length (filter (\<lambda>i. category i = k) (all_issues rs)) = 0 then None
      else Some (length (filter (\<lambda>i. category i = k) (all_issues rs))))"
  by (simp add: generateSummary_def foldl_tally_review_category tally_value_def)

text \<open>A session that returns a result returns the summary of its own reviews.\<close>

lemma executeReview_summary:
  assumes "executeReview rt hub w repositoryUrl branchName standardsContent = (Inr result, w')"
  shows "ReviewResult.summary result = generateSummary (reviews result)"
  using assms
  by (auto simp: executeReview_def fail_session_def Let_def
           split: sum.splits if_splits prod.splits)

text \<open>
  A session returns a result as soon as the source provider holds a file after fetching:
  nothing that happens to a single file ends it.
\<close>

lemma executeReview_returns:
  assumes "getCodeFiles (snd (cloneRepository hub (gitService w) repositoryUrl branchName)) \<noteq> []"
  shows "\<exists>result w'.
           executeReview rt hub w repositoryUrl branchName standardsContent = (Inr result, w')"
  using assms
  by (simp add: executeReview_def Let_def split_def updateProgress_def emitLog_def)

text \<open>What the source provider holds after fetching from \<open>hub_with files\<close>.\<close>

lemma or_else_text [simp]: "or_else (JStr c) [] = JStr c"
  by (simp add: or_else_def truthy_def)

lemma or_else_twice [simp]: "or_else (or_else v []) [] = or_else v []"
  by (simp add: or_else_def truthy_def)

lemma getFileContent_hub_with:
  assumes "map_of files p = Some v"
  shows "getFileContent (hub_with files) git u b p = or_else v []"
  using assms by (simp add: getFileContent_def hub_with_def)

lemma fetch_files_hub_with:
  assumes "distinct ps" and "set ps \<inter> fst ` set (repositoryFiles git) = {}"
      and "\<forall>p\<in>set ps. map_of files p \<noteq> None"
  shows "fetch_files (hub_with files) u b ps (git, n)
           = (git\<lparr>repositoryFiles :=
                     repositoryFiles git
                     @ map (\<lambda>p. (p, \<lparr>file_path = p,
                                      file_content = or_else (the (map_of files p)) []\<rparr>)) ps\<rparr>,
              n + length ps)"
  using assms
proof (induction ps arbitrary: git n)
  case Nil
  then show ?case by simp
next
  case (Cons p ps)
  from Cons.prems obtain v where v: "map_of files p = Some v" by auto
  let ?git = "git\<lparr>repositoryFiles :=
                    repositoryFiles git @ [(p, \<lparr>file_path = p, file_content = or_else v []\<rparr>)]\<rparr>"
  from Cons.prems have fresh: "p \<notin> fst ` set (repositoryFiles git)" by auto
  have step: "fetch_files (hub_with files) u b (p # ps) (git, n)
                = fetch_files (hub_with files) u b ps (?git, n + 1)"
    using fresh by (simp add: Let_def getFileContent_hub_with [OF v] map_set_def)
  have "fetch_files (hub_with files) u b ps (?git, n + 1)
          = (?git\<lparr>repositoryFiles :=
                     repositoryFiles ?git
                     @ map (\<lambda>p. (p, \<lparr>file_path = p,
                                      file_content = or_else (the (map_of files p)) []\<rparr>)) ps\<rparr>,
             n + 1 + length ps)"
    using Cons.prems by (intro Cons.IH) auto
  with step v show ?case by simp
qed

lemma clone_hub_with:
  assumes "distinct (map fst files)"
  shows "repositoryFiles (snd (cloneRepository (hub_with files) git u b))
           = map (\<lambda>(p, v). (p, \<lparr>file_path = p, file_content = or_else v []\<rparr>)) files"
proof -
  have known: "\<forall>p\<in>set (map fst files). map_of files p \<noteq> None"
    by (auto simp: map_of_eq_None_iff)
  have "map (\<lambda>p. (p, \<lparr>file_path = p, file_content = or_else (the (map_of files p)) []\<rparr>))
          (map fst files)
          = map (\<lambda>(p, v). (p, \<lparr>file_path = p, file_content = or_else v []\<rparr>)) files"
    using assms by (auto simp: map_of_eq_Some_iff)
  moreover have "getRepositoryFiles (hub_with files) u b = map fst files"
    by (simp add: getRepositoryFiles_def hub_with_def)
  ultimately show ?thesis
    using fetch_files_hub_with [OF assms _ known, of "git\<lparr>repositoryFiles := []\<rparr>" u b 0]
    by (simp add: cloneRepository_def Let_def)
qed

lemma hub_with_files:
  assumes "distinct (map fst files)"
  shows "getCodeFiles (snd (cloneRepository (hub_with files) git u b)) = map fst files"
    and "readFileContent (snd (cloneRepository (hub_with files) git u b)) p
           = (case map_of files p of Some v \<Rightarrow> or_else v [] | None \<Rightarrow> JStr [])"
proof -
  note r = clone_hub_with [OF assms, of git u b]
  show "getCodeFiles (snd (cloneRepository (hub_with files) git u b)) = map fst files"
    by (simp add: getCodeFiles_def r split_def comp_def)
  have "map_of (map (\<lambda>(p, v). (p, \<lparr>file_path = p, file_content = or_else v []\<rparr>)) files) p
          = map_option (\<lambda>v. \<lparr>file_path = p, file_content = or_else v []\<rparr>) (map_of files p)"
    by (induction files) auto
  thus "readFileContent (snd (cloneRepository (hub_with files) git u b)) p
           = (case map_of files p of Some v \<Rightarrow> or_else v [] | None \<Rightarrow> JStr [])"
    by (simp add: readFileContent_def r split: option.splits)
qed

lemma hub_of_files:
  assumes "distinct (map fst files)"
  shows "getCodeFiles (snd (cloneRepository (hub_of files) git u b)) = map fst files"
    and "readFileContent (snd (cloneRepository (hub_of files) git u b)) p
           = JStr (case map_of files p of Some c \<Rightarrow> c | None \<Rightarrow> [])"
proof -
  let ?fl = "map (\<lambda>(p, c). (p, JStr c)) files"
  have f: "map fst ?fl = map fst files" by (simp add: split_def comp_def)
  have d: "distinct (map fst ?fl)" unfolding f by (rule assms)
  show "getCodeFiles (snd (cloneRepository (hub_of files) git u b)) = map fst files"
    unfolding hub_of_def hub_with_files(1) [OF d] by (rule f)
  have "map_of ?fl p = map_option JStr (map_of files p)"
    by (induction files) auto
  thus "readFileContent (snd (cloneRepository (hub_of files) git u b)) p
           = JStr (case map_of files p of Some c \<Rightarrow> c | None \<Rightarrow> [])"
    unfolding hub_of_def hub_with_files(2) [OF d] by (simp split: option.splits)
qed

lemma hub_with_returns:
  assumes "distinct (map fst files)" and "files \<noteq> []"
  shows "\<exists>result w'.
           executeReview rt (hub_with files) w repositoryUrl branchName standardsContent
             = (Inr result, w')"
  by (rule executeReview_returns) (simp add: hub_with_files(1) [OF assms(1)] assms(2))

lemma hub_of_returns:
  assumes "distinct (map fst files)" and "files \<noteq> []"
  shows "\<exists>result w'.
           executeReview rt (hub_of files) w repositoryUrl branchName standardsContent
             = (Inr result, w')"
  by (rule executeReview_returns) (simp add: hub_of_files(1) [OF assms(1)] assms(2))

text \<open>
  Claim C1. In every result of a session, the total of the summary is the sum of the
  numbers of findings of the reviews, the number of files with findings is the number of
  reviews whose findings are not empty, and each of the two tallies holds, for a kind or a
  category, the number of findings that have it when there is one, and no entry (never a
  zero) when there is none.
\<close>

theorem summary_agrees_with_reviews:
  assumes "executeReview rt hub w repositoryUrl branchName standardsContent = (Inr result, w')"
  shows "totalIssues (ReviewResult.summary result)
           = sum_list (map (\<lambda>r. length (issues r)) (reviews result))
         \<and> filesWithIssues (ReviewResult.summary result)
           = length (filter (\<lambda>r. issues r \<noteq> []) (reviews result))
         \<and> (\<forall>k. issuesByType (ReviewResult.summary result) k =
                (let n = length (filter (\<lambda>i. type i = k) (all_issues (reviews result)))
                 in if n = 0 then None else Some n))
         \<and> (\<forall>c. issuesByCategory (ReviewResult.summary result) c =
                (let n = length (filter (\<lambda>i. category i = c) (all_issues (reviews result)))
                 in if n = 0 then None else Some n))"
  unfolding executeReview_summary [OF assms] Let_def
  by (simp only: generateSummary_counts generateSummary_byType generateSummary_byCategory)
     simp

theorem summary_agrees_with_reviews_witness:
  "\<exists>result w'.
     executeReview example_runtime (hub_of [(jstr ''a.ts'', jstr ''x '')]) fresh_session
       [] [] [] = (Inr result, w')
     \<and> totalIssues (ReviewResult.summary result)
         = sum_list (map (\<lambda>r. length (issues r)) (reviews result))
     \<and> filesWithIssues (ReviewResult.summary result)
         = length (filter (\<lambda>r. issues r \<noteq> []) (reviews result))"
proof -
  obtain result w' where run:
    "executeReview example_runtime (hub_of [(jstr ''a.ts'', jstr ''x '')]) fresh_session
       [] [] [] = (Inr result, w')"
    using hub_of_returns
            [of "[(jstr ''a.ts'', jstr ''x '')]" example_runtime fresh_session "[]" "[]" "[]"]
    by auto
  from summary_agrees_with_reviews [OF run] run show ?thesis by blast
qed

section \<open>The context of a heuristic finding\<close>

lemma slice_as_window:
  assumes "e \<le> length xs"
  shows "slice s e xs = map (\<lambda>j. xs ! j) [s ..< e]"
  using assms by (auto simp: slice_def list_eq_iff_nth_eq)

text \<open>\<open>getContextLines\<close> computes the window of the specification.\<close>

lemma getContextLines_is_window:
  "getContextLines lines i = context_window_spec lines i"
  by (simp add: getContextLines_def context_window_spec_def slice_as_window eval_nat_numeral)

text \<open>So does the \<open>slice(0, 3)\<close> of the definition-count rule, for the first line.\<close>

lemma first_three_lines_are_window:
  "slice 0 3 lines = context_window_spec lines 0"
proof -
  have "slice 0 3 lines = slice 0 (min (length lines) 3) lines"
    by (simp add: slice_def min_def)
  thus ?thesis by (simp add: context_window_spec_def slice_as_window)
qed

lemma check_line_window:
  assumes "f \<in> set (check_line lines i l)"
  shows "line f = line_no (i + 1) \<and> context f = context_window_spec lines i"
  using assms by (auto simp: check_line_def getContextLines_is_window split: if_splits)

text \<open>
  Every finding of the analyzer other than that of the final-newline rule carries the
  window around its line.
\<close>

lemma other_findings_have_windows:
  assumes "f \<in> set (performBasicCodeCheck filePath content language)"
      and "message f \<noteq> msg_no_final_newline"
  shows "\<exists>i. line f = line_no (i + 1) \<and> context f = context_window_spec (split_lines content) i"
proof -
  let ?lines = "split_lines content"
  from assms consider
      (per_line) i l where "f \<in> set (check_line ?lines i l)"
    | (count) "line f = line_no 1" "context f = slice 0 3 ?lines"
    by (auto simp: performBasicCodeCheck_def Let_def split: if_splits)
  thus ?thesis
  proof cases
    case per_line
    from check_line_window [OF this] show ?thesis by blast
  next
    case count
    hence "line f = line_no (0 + 1) \<and> context f = context_window_spec ?lines 0"
      by (simp add: first_three_lines_are_window)
    thus ?thesis by blast
  qed
qed

text \<open>
  Claim C9. The final-newline rule does not: for the three lines \<open>a\<close>, \<open>b\<close>, \<open>c\<close>
  without a final newline it reports line 3 with the last two lines as its context, where
  the window from two lines before line 3 holds all three.
\<close>

theorem final_newline_context_misses_a_line:
  "performBasicCodeCheck (jstr ''f.ts'')
     (jstr ''a'' @ [newline] @ jstr ''b'' @ [newline] @ jstr ''c'') (jstr ''typescript'')
   = [\<lparr>line = Fin 3, column = None, type = T_style, category = C_maintainability,
       message = msg_no_final_newline, suggestion = sug_no_final_newline, code = jstr ''c'',
       context = [jstr ''b'', jstr ''c'']\<rparr>]
   \<and> context_window_spec
       (split_lines (jstr ''a'' @ [newline] @ jstr ''b'' @ [newline] @ jstr ''c'')) 2
     = [jstr ''a'', jstr ''b'', jstr ''c'']"
  by code_simp

section \<open>The loop over the files\<close>

lemma same_config_refl [simp]: "same_config a a"
  by (simp add: same_config_def)

lemma same_config_trans: "same_config a b \<Longrightarrow> same_config b c \<Longrightarrow> same_config a c"
  by (simp add: same_config_def)

lemma same_config_no_credential: "same_config a b \<Longrightarrow> no_credential b = no_credential a"
  by (simp add: same_config_def no_credential_def)

lemma reviewCode_same_config:
  "same_config svc (fst (snd (reviewCode rt has_log svc p src l s)))"
  by (simp add: reviewCode_def same_config_def Let_def split: option.splits prod.splits sum.splits)

lemma reviewCode_throws:
  assumes "no_credential svc"
  shows "reviewCode rt has_log svc p c l s = (Inl (Error err_no_key_or_model), svc, [])"
  using assms by (auto simp: reviewCode_def no_credential_def)

lemma reviewCode_returns:
  assumes "\<not> no_credential svc"
  shows "\<exists>r. fst (reviewCode rt has_log svc p c l s) = Inr r"
  using assms
  by (auto simp: reviewCode_def no_credential_def Let_def split: prod.splits sum.splits)

lemma emitLog_fields [simp]:
  "progress (emitLog lv m d w) = progress w"
  "progressEvents (emitLog lv m d w) = progressEvents w"
  "aiService (emitLog lv m d w) = aiService w"
  "gitService (emitLog lv m d w) = gitService w"
  "logEvents (emitLog lv m d w) = logEvents w @ [(lv, m, d)]"
  by (simp_all add: emitLog_def)

lemma updateProgress_fields [simp]:
  "progress (updateProgress u w) = u (progress w)"
  "progressEvents (updateProgress u w) = progressEvents w @ [u (progress w)]"
  "aiService (updateProgress u w) = aiService w"
  "gitService (updateProgress u w) = gitService w"
  "logEvents (updateProgress u w) = logEvents w"
  by (simp_all add: updateProgress_def Let_def)

lemma foldl_emitLog_fields [simp]:
  "progress (foldl (\<lambda>s phase. emitLog lv phase d s) w phases) = progress w"
  "progressEvents (foldl (\<lambda>s phase. emitLog lv phase d s) w phases) = progressEvents w"
  "aiService (foldl (\<lambda>s phase. emitLog lv phase d s) w phases) = aiService w"
  "gitService (foldl (\<lambda>s phase. emitLog lv phase d s) w phases) = gitService w"
  "logEvents (foldl (\<lambda>s phase. emitLog lv phase d s) w phases)
     = logEvents w @ map (\<lambda>phase. (lv, phase, d)) phases"
  by (induction phases arbitrary: w) simp_all

lemma analyzeFile_keeps:
  "progress (snd (analyzeFile rt w p c l s)) = progress w"
  "progressEvents (snd (analyzeFile rt w p c l s)) = progressEvents w"
  "gitService (snd (analyzeFile rt w p c l s)) = gitService w"
  "same_config (aiService w) (aiService (snd (analyzeFile rt w p c l s)))"
proof -
  let ?w1 = "emitLog L_info log_basic
               (Detail (p @ detail_arrow @ show_nat (length (performBasicCodeCheck p c l))
                        @ detail_issues)) w"
  obtain r svc ph where rc: "reviewCode rt True (aiService w) p c l s = (r, svc, ph)"
    by (cases "reviewCode rt True (aiService w) p c l s") auto
  from reviewCode_same_config [of "aiService w" rt True p c l s] rc
  have sc: "same_config (aiService w) svc" by simp
  show "progress (snd (analyzeFile rt w p c l s)) = progress w"
    using rc by (cases r) (simp_all add: analyzeFile_def Let_def)
  show "progressEvents (snd (analyzeFile rt w p c l s)) = progressEvents w"
    using rc by (cases r) (simp_all add: analyzeFile_def Let_def)
  show "gitService (snd (analyzeFile rt w p c l s)) = gitService w"
    using rc by (cases r) (simp_all add: analyzeFile_def Let_def)
  show "same_config (aiService w) (aiService (snd (analyzeFile rt w p c l s)))"
    using rc sc by (cases r) (simp_all add: analyzeFile_def Let_def)
qed

lemma analyzeFile_file [simp]: "file (fst (analyzeFile rt w p c l s)) = p"
  by (simp add: analyzeFile_def Let_def split: prod.splits sum.splits)

lemma analyzeFile_oversize:
  assumes "length c > 50000"
  shows "analyzeFile rt w p c l s
           = (\<lparr>file = p, issues = [], summary = note_too_large\<rparr>,
              emitLog L_warning log_too_large
                (Detail (p @ detail_kb_open @ kilobytes (length c) @ detail_kb_close)) w)"
  using assms by (simp add: analyzeFile_def)

lemma analyzeFile_issues:
  assumes "length c \<le> 50000"
  shows "issues (fst (analyzeFile rt w p c l s))
           = performBasicCodeCheck p c l
             @ (case fst (reviewCode rt True (aiService w) p c l s) of
                  Inr remote \<Rightarrow> issues remote | Inl e \<Rightarrow> [])"
  using assms by (simp add: analyzeFile_def Let_def split: prod.splits sum.splits)

lemma analyzeFile_remote_throws:
  assumes "length c \<le> 50000" and "no_credential (aiService w)"
  shows "analyzeFile rt w p c l s
           = (\<lparr>file = p, issues = performBasicCodeCheck p c l,
               summary = note_basic_prefix @ show_nat (length (performBasicCodeCheck p c l))
                         @ note_basic_suffix\<rparr>,
              emitLog L_error log_ai_failed (Detail p)
                (emitLog L_info log_basic
                   (Detail (p @ detail_arrow @ show_nat (length (performBasicCodeCheck p c l))
                            @ detail_issues)) w))"
proof -
  let ?w1 = "emitLog L_info log_basic
               (Detail (p @ detail_arrow @ show_nat (length (performBasicCodeCheck p c l))
                        @ detail_issues)) w"
  have "reviewCode rt True (aiService ?w1) p c l s
          = (Inl (Error err_no_key_or_model), aiService w, [])"
    using reviewCode_throws [OF assms(2)] by simp
  thus ?thesis using assms(1) by (simp add: analyzeFile_def Let_def emitLog_def)
qed

text \<open>
  The log events \<open>analyzeFile\<close> appends: among them one error event, naming the file,
  when the remote review throws, and none otherwise.
\<close>

lemma analyzeFile_errors:
  "\<exists>evs. logEvents (snd (analyzeFile rt w p c l s)) = logEvents w @ evs
         \<and> filter (\<lambda>e. fst e = L_error) evs
           = (if length c \<le> 50000 \<and> no_credential (aiService w)
              then [(L_error, log_ai_failed, Detail p)] else [])"
proof (cases "length c > 50000")
  case True
  thus ?thesis by (simp add: analyzeFile_oversize)
next
  case small: False
  show ?thesis
  proof (cases "no_credential (aiService w)")
    case True
    with small show ?thesis by (simp add: analyzeFile_remote_throws)
  next
    case False
    let ?w1 = "emitLog L_info log_basic
               (Detail (p @ detail_arrow @ show_nat (length (performBasicCodeCheck p c l))
                        @ detail_issues)) w"
    from reviewCode_returns [OF False, of rt True p c l s]
    obtain r svc ph where "reviewCode rt True (aiService ?w1) p c l s = (Inr r, svc, ph)"
      by (cases "reviewCode rt True (aiService w) p c l s") auto
    with small False show ?thesis
      by (simp add: analyzeFile_def Let_def filter_map comp_def)
  qed
qed

lemma review_of_config:
  "same_config a b \<Longrightarrow> review_of rt git s b p r \<Longrightarrow> review_of rt git s a p r"
  by (auto simp: review_of_def intro: same_config_trans split: json.splits)

lemma review_of_file: "review_of rt git s svc p r \<Longrightarrow> file r = p"
  by (auto simp: review_of_def split: json.splits)

lemma list_all2_review_of_files:
  "list_all2 (review_of rt git s svc) ps rs \<Longrightarrow> map file rs = ps"
  by (induction rule: list_all2_induct) (auto dest: review_of_file)

lemma raises_config: "same_config a b \<Longrightarrow> raises b git p = raises a git p"
  by (simp add: raises_def same_config_no_credential)

text \<open>
  What the loop does: it appends one review for each file that is not blank, in order; it
  leaves the source provider, the configuration of the client and the total of the
  progress as they are; and the error events it appends are one for each file in whose
  pipeline something throws, in order.
\<close>

lemma review_files_shape:
  assumes "review_files rt s i fs (w, acc) = (w', out)"
  shows "\<exists>news evs. out = acc @ news
           \<and> list_all2 (review_of rt (gitService w) s (aiService w))
                 (filter (\<lambda>p. \<not> is_blank (gitService w) p) fs) news
           \<and> same_config (aiService w) (aiService w')
           \<and> gitService w' = gitService w
           \<and> ReviewProgress.totalFiles (progress w') = ReviewProgress.totalFiles (progress w)
           \<and> logEvents w' = logEvents w @ evs
           \<and> filter (\<lambda>e. fst e = L_error) evs
               = map (error_event rt (gitService w))
                   (filter (raises (aiService w) (gitService w)) fs)"
  using assms
proof (induction fs arbitrary: i w acc)
  case Nil
  then show ?case by simp
next
  case (Cons p rest)
  let ?w1 = "updateProgress (\<lambda>q. q\<lparr>currentFile := p, processedFiles := i\<rparr>) w"
  let ?g = "gitService w"
  let ?P = "\<lambda>w2 item. \<exists>news evs.
      out = (acc @ item) @ news
      \<and> list_all2 (review_of rt (gitService w2) s (aiService w2))
            (filter (\<lambda>p. \<not> is_blank (gitService w2) p) rest) news
      \<and> same_config (aiService w2) (aiService w')
      \<and> gitService w' = gitService w2
      \<and> ReviewProgress.totalFiles (progress w') = ReviewProgress.totalFiles (progress w2)
      \<and> logEvents w' = logEvents w2 @ evs
      \<and> filter (\<lambda>e. fst e = L_error) evs
          = map (error_event rt (gitService w2))
              (filter (raises (aiService w2) (gitService w2)) rest)"
  consider (blank) c where "readFileContent ?g p = JStr c" "trim c = []"
    | (nonblank) c where "readFileContent ?g p = JStr c" "trim c \<noteq> []"
    | (other) "is_no_text ?g p"
    by (cases "readFileContent ?g p") (auto simp: is_no_text_def)
  then show ?case
  proof cases
    case blank
    let ?w2 = "emitLog L_warning log_empty_skipped (Detail p) ?w1"
    from Cons.prems blank
    have "review_files rt s (i + 1) rest (?w2, acc) = (w', out)"
      by (simp add: Let_def)
    from Cons.IH [OF this] have "?P ?w2 []" by simp
    then obtain news evs where
      n: "out = acc @ news"
         "list_all2 (review_of rt ?g s (aiService w))
            (filter (\<lambda>p. \<not> is_blank ?g p) rest) news"
         "same_config (aiService w) (aiService w')"
         "gitService w' = ?g"
         "ReviewProgress.totalFiles (progress w') = ReviewProgress.totalFiles (progress w)"
         "logEvents w' = logEvents ?w2 @ evs"
         "filter (\<lambda>e. fst e = L_error) evs
               = map (error_event rt ?g) (filter (raises (aiService w) ?g) rest)"
      by auto
    have b: "is_blank ?g p" "\<not> raises (aiService w) ?g p"
      using blank by (simp_all add: is_blank_def raises_def is_no_text_def)
    show ?thesis
      using n b
      by (intro exI [of _ news] exI [of _ "(L_warning, log_empty_skipped, Detail p) # evs"]) simp
  next
    case nonblank
    let ?l = "detectLanguage rt p"
    let ?w2 = "emitLog L_info log_language (Detail (p @ detail_arrow @ ?l)) ?w1"
    let ?a = "analyzeFile rt ?w2 p c ?l s"
    let ?w3 = "emitLog L_info log_analysed
                 (Detail (p @ detail_arrow_issues @ show_nat (length (issues (fst ?a))))) (snd ?a)"
    from Cons.prems nonblank
    have "review_files rt s (i + 1) rest (?w3, acc @ [fst ?a]) = (w', out)"
      by (simp add: Let_def split_def)
    from Cons.IH [OF this] have "?P ?w3 [fst ?a]" .
    then obtain news evs where
      n: "out = (acc @ [fst ?a]) @ news"
         "list_all2 (review_of rt (gitService ?w3) s (aiService ?w3))
            (filter (\<lambda>p. \<not> is_blank (gitService ?w3) p) rest) news"
         "same_config (aiService ?w3) (aiService w')"
         "gitService w' = gitService ?w3"
         "ReviewProgress.totalFiles (progress w') = ReviewProgress.totalFiles (progress ?w3)"
         "logEvents w' = logEvents ?w3 @ evs"
         "filter (\<lambda>e. fst e = L_error) evs
               = map (error_event rt (gitService ?w3))
                   (filter (raises (aiService ?w3) (gitService ?w3)) rest)"
      by blast
    have g: "gitService ?w3 = ?g" by (simp add: analyzeFile_keeps)
    have sc: "same_config (aiService w) (aiService ?w3)"
      using analyzeFile_keeps(4) [of ?w2 rt p c ?l s] by simp
    note rc = raises_config [OF sc]
    from analyzeFile_errors [of rt ?w2 p c ?l s] obtain evs0 where
      e0: "logEvents (snd ?a) = logEvents ?w2 @ evs0"
          "filter (\<lambda>e. fst e = L_error) evs0
             = (if length c \<le> 50000 \<and> no_credential (aiService w)
                then [(L_error, log_ai_failed, Detail p)] else [])"
      by auto
    have nb: "\<not> is_blank ?g p" using nonblank by (simp add: is_blank_def)
    have ra: "raises (aiService w) ?g p = (length c \<le> 50000 \<and> no_credential (aiService w))"
      using nonblank by (auto simp: raises_def is_no_text_def is_small_def is_blank_def)
    have ev: "error_event rt ?g p = (L_error, log_ai_failed, Detail p)"
      using nonblank by (simp add: error_event_def)
    have r: "review_of rt ?g s (aiService w) p (fst ?a)"
      using nonblank by (auto simp: review_of_def intro!: exI [of _ ?w2])
    have l: "list_all2 (review_of rt ?g s (aiService w))
               (filter (\<lambda>p. \<not> is_blank ?g p) rest) news"
      using n(2) sc unfolding g by (auto elim!: list_all2_mono intro: review_of_config)
    let ?evs = "[(L_info, log_language, Detail (p @ detail_arrow @ ?l))] @ evs0
                @ [(L_info, log_analysed,
                    Detail (p @ detail_arrow_issues @ show_nat (length (issues (fst ?a)))))]
                @ evs"
    have lg: "logEvents w' = logEvents w @ ?evs" using n(6) e0(1) by simp
    have er: "filter (\<lambda>e. fst e = L_error) ?evs
               = map (error_event rt ?g) (filter (raises (aiService w) ?g) (p # rest))"
      using n(7) e0(2) ra ev unfolding g rc by simp
    have t: "ReviewProgress.totalFiles (progress w') = ReviewProgress.totalFiles (progress w)"
      using n(5) by (simp add: analyzeFile_keeps)
    have sc': "same_config (aiService w) (aiService w')"
      using sc n(3) by (rule same_config_trans)
    have g': "gitService w' = ?g" using n(4) g by simp
    show ?thesis
      using n(1) r l nb sc' g' t lg er
      by (intro exI [of _ "fst ?a # news"] exI [of _ ?evs]) simp
  next
    case other
    let ?m = "trimFailure rt (readFileContent ?g p)"
    let ?e = "(L_error, log_file_failed, Detail (p @ detail_dash @ ?m))"
    let ?r = "\<lparr>file = p, issues = [], summary = note_failed_prefix @ ?m\<rparr>"
    let ?w2 = "emitLog L_error log_file_failed (Detail (p @ detail_dash @ ?m)) ?w1"
    from Cons.prems other
    have "review_files rt s (i + 1) rest (?w2, acc @ [?r]) = (w', out)"
      by (cases "readFileContent ?g p") (simp_all add: Let_def is_no_text_def)
    from Cons.IH [OF this] have "?P ?w2 [?r]" .
    then obtain news evs where
      n: "out = (acc @ [?r]) @ news"
         "list_all2 (review_of rt ?g s (aiService w))
            (filter (\<lambda>p. \<not> is_blank ?g p) rest) news"
         "same_config (aiService w) (aiService w')"
         "gitService w' = ?g"
         "ReviewProgress.totalFiles (progress w') = ReviewProgress.totalFiles (progress w)"
         "logEvents w' = logEvents ?w2 @ evs"
         "filter (\<lambda>e. fst e = L_error) evs
               = map (error_event rt ?g) (filter (raises (aiService w) ?g) rest)"
      by auto
    have nb: "\<not> is_blank ?g p" "raises (aiService w) ?g p"
      using other by (cases "readFileContent ?g p"; simp add: is_blank_def raises_def is_no_text_def)+
    have ev: "error_event rt ?g p = ?e"
      using other by (cases "readFileContent ?g p") (simp_all add: error_event_def is_no_text_def)
    have r: "review_of rt ?g s (aiService w) p ?r"
      using other by (cases "readFileContent ?g p") (simp_all add: review_of_def is_no_text_def)
    show ?thesis
      using n nb ev r
      by (intro exI [of _ "?r # news"] exI [of _ "?e # evs"]) simp
  qed
qed

lemma includes_str_prefix: "prefix n s \<Longrightarrow> includes_str s n"
  by (cases s) auto

lemma includes_str_append2: "includes_str b n \<Longrightarrow> includes_str (a @ b) n"
  by (induction a) auto

lemma includes_str_append1: "includes_str a n \<Longrightarrow> includes_str (a @ b) n"
proof (induction a)
  case Nil
  then show ?case by (cases b) auto
next
  case (Cons x a)
  show ?case
  proof (cases "prefix n (x # a)")
    case True
    hence "prefix n ((x # a) @ b)" by (rule prefix_prefix)
    thus ?thesis by simp
  next
    case False
    with Cons show ?thesis by simp
  qed
qed

lemma failed_note_marked: "includes_str (note_failed_prefix @ m) failure_marker"
proof -
  have "includes_str note_failed_prefix failure_marker" by code_simp
  thus ?thesis by (rule includes_str_append1)
qed

lemma basic_note_marked: "includes_str (note_basic_prefix @ n @ note_basic_suffix) failure_marker"
proof -
  have "includes_str note_basic_suffix failure_marker" by code_simp
  thus ?thesis by (intro includes_str_append2)
qed

text \<open>
  A session that returns a result has fetched at least one file, has run the loop over
  the files the source provider holds, from a state that has logged no error yet, and has
  logged one more piece of information after it.
\<close>

lemma executeReview_success:
  assumes run: "executeReview rt hub w repositoryUrl branchName standardsContent = (Inr result, w')"
      and git: "git = snd (cloneRepository hub (gitService w) repositoryUrl branchName)"
  shows "getCodeFiles git \<noteq> [] \<and>
         (\<exists>w6 w7 d1 d2 d3.
            aiService w6 = aiService w \<and> gitService w6 = git
            \<and> ReviewProgress.totalFiles (progress w6) = length (getCodeFiles git)
            \<and> logEvents w6 = logEvents w @ [(L_info, log_fetched, d1), (L_info, log_file_list, d2)]
            \<and> review_files rt standardsContent 0 (getCodeFiles git) (w6, []) = (w7, reviews result)
            \<and> w' = updateProgress (\<lambda>p. p\<lparr>ReviewProgress.status := Completed, currentFile := cur_done\<rparr>)
                      (emitLog L_info log_done d3 w7))"
proof (cases "getCodeFiles git = []")
  case True
  with run git show ?thesis
    by (simp add: executeReview_def fail_session_def Let_def split_def)
next
  case False
  let ?fs = "getCodeFiles git"
  let ?c = "fst (cloneRepository hub (gitService w) repositoryUrl branchName)"
  let ?w6 = "updateProgress (\<lambda>p. p\<lparr>ReviewProgress.status := Analyzing\<rparr>)
               (emitLog L_info log_file_list (Detail (show_nat (length ?fs) @ clone_msg_suffix))
                 (updateProgress
                   (\<lambda>p. p\<lparr>ReviewProgress.totalFiles := length ?fs,
                          currentFile := cur_found_prefix @ show_nat (length ?fs)
                                         @ cur_found_suffix\<rparr>)
                   (updateProgress (\<lambda>p. p\<lparr>currentFile := cur_scanning\<rparr>)
                     (emitLog L_info log_fetched (Detail ?c)
                       ((updateProgress
                         (\<lambda>p. p\<lparr>ReviewProgress.status := Cloning,
                                ReviewProgress.totalFiles := 0, processedFiles := 0,
                                currentFile := cur_fetching\<rparr>) w)\<lparr>gitService := git\<rparr>)))))"
  obtain w7 collected where
    rf: "review_files rt standardsContent 0 ?fs (?w6, []) = (w7, collected)"
    by (cases "review_files rt standardsContent 0 ?fs (?w6, [])") auto
  from run git False rf
  have "reviews result = collected"
    and "\<exists>d3. w' = updateProgress (\<lambda>p. p\<lparr>ReviewProgress.status := Completed, currentFile := cur_done\<rparr>)
                (emitLog L_info log_done d3 w7)"
    by (auto simp: executeReview_def Let_def split_def)
  with rf False show ?thesis
    by (intro conjI exI [of _ ?w6] exI [of _ w7]) auto
qed

lemma executeReview_reviews:
  assumes run: "executeReview rt hub w repositoryUrl branchName standardsContent = (Inr result, w')"
      and git: "git = snd (cloneRepository hub (gitService w) repositoryUrl branchName)"
  shows "list_all2 (review_of rt git standardsContent (aiService w))
           (filter (\<lambda>p. \<not> is_blank git p) (getCodeFiles git)) (reviews result)"
    and "ReviewProgress.totalFiles (progress w') = length (getCodeFiles git)"
    and "last (progressEvents w') = progress w'"
    and "gitService w' = git"
    and "getCodeFiles git \<noteq> []"
proof -
  from executeReview_success [OF run git] obtain w6 w7 d3 where
    s: "aiService w6 = aiService w" "gitService w6 = git"
       "ReviewProgress.totalFiles (progress w6) = length (getCodeFiles git)"
       "review_files rt standardsContent 0 (getCodeFiles git) (w6, []) = (w7, reviews result)"
       "w' = updateProgress (\<lambda>p. p\<lparr>ReviewProgress.status := Completed, currentFile := cur_done\<rparr>)
                      (emitLog L_info log_done d3 w7)"
    and ne: "getCodeFiles git \<noteq> []"
    by blast
  from review_files_shape [OF s(4)] s(1,2,3)
  show "list_all2 (review_of rt git standardsContent (aiService w))
           (filter (\<lambda>p. \<not> is_blank git p) (getCodeFiles git)) (reviews result)"
    and "ReviewProgress.totalFiles (progress w') = length (getCodeFiles git)"
    and "gitService w' = git"
    using s(5) by auto
  show "last (progressEvents w') = progress w'" using s(5) by simp
  show "getCodeFiles git \<noteq> []" by (rule ne)
qed

text \<open>The error events a session appends to the log.\<close>

lemma executeReview_errors:
  assumes run: "executeReview rt hub w repositoryUrl branchName standardsContent = (Inr result, w')"
      and git: "git = snd (cloneRepository hub (gitService w) repositoryUrl branchName)"
  shows "\<exists>evs. logEvents w' = logEvents w @ evs"
    and "appended_errors w w'
           = map (error_event rt git) (filter (raises (aiService w) git) (getCodeFiles git))"
proof -
  from executeReview_success [OF run git] obtain w6 w7 d1 d2 d3 where
    s: "aiService w6 = aiService w" "gitService w6 = git"
       "logEvents w6 = logEvents w @ [(L_info, log_fetched, d1), (L_info, log_file_list, d2)]"
       "review_files rt standardsContent 0 (getCodeFiles git) (w6, []) = (w7, reviews result)"
       "w' = updateProgress (\<lambda>p. p\<lparr>ReviewProgress.status := Completed, currentFile := cur_done\<rparr>)
                      (emitLog L_info log_done d3 w7)"
    by blast
  from review_files_shape [OF s(4)] obtain evs where
    e: "logEvents w7 = logEvents w6 @ evs"
       "filter (\<lambda>e. fst e = L_error) evs
          = map (error_event rt (gitService w6))
              (filter (raises (aiService w6) (gitService w6)) (getCodeFiles git))"
    by blast
  have l: "logEvents w' = logEvents w @ [(L_info, log_fetched, d1), (L_info, log_file_list, d2)]
                          @ evs @ [(L_info, log_done, d3)]"
    using s(3,5) e(1) by simp
  thus "\<exists>evs. logEvents w' = logEvents w @ evs" by blast
  show "appended_errors w w'
           = map (error_event rt git) (filter (raises (aiService w) git) (getCodeFiles git))"
    unfolding appended_errors_def l using e(2) s(1,2) by simp
qed

lemma executeReview_files:
  assumes run: "executeReview rt hub w repositoryUrl branchName standardsContent = (Inr result, w')"
      and git: "git = snd (cloneRepository hub (gitService w) repositoryUrl branchName)"
  shows "map file (reviews result) = filter (\<lambda>p. \<not> is_blank git p) (getCodeFiles git)"
  using executeReview_reviews(1) [OF run git] by (rule list_all2_review_of_files)

lemma reviews_are_reviews_of:
  assumes run: "executeReview rt hub w repositoryUrl branchName standardsContent = (Inr result, w')"
      and git: "git = snd (cloneRepository hub (gitService w) repositoryUrl branchName)"
      and r: "r \<in> set (reviews result)"
  shows "review_of rt git standardsContent (aiService w) (file r) r"
    and "file r \<in> set (getCodeFiles git)" and "\<not> is_blank git (file r)"
proof -
  note all = executeReview_reviews(1) [OF run git]
  from r obtain n where n: "n < length (reviews result)" "reviews result ! n = r"
    by (auto simp: in_set_conv_nth)
  let ?ps = "filter (\<lambda>p. \<not> is_blank git p) (getCodeFiles git)"
  from all n have ro: "review_of rt git standardsContent (aiService w) (?ps ! n) r"
    and len: "n < length ?ps"
    by (auto simp: list_all2_conv_all_nth)
  from ro have f: "file r = ?ps ! n" by (auto dest: review_of_file)
  from len have m: "?ps ! n \<in> set ?ps" by (rule nth_mem)
  show "review_of rt git standardsContent (aiService w) (file r) r" using ro f by simp
  show "file r \<in> set (getCodeFiles git)" using m f by simp
  show "\<not> is_blank git (file r)" using m f by simp
qed

lemma unreadable_review:
  assumes run: "executeReview rt hub w repositoryUrl branchName standardsContent = (Inr result, w')"
      and git: "git = snd (cloneRepository hub (gitService w) repositoryUrl branchName)"
      and r: "r \<in> set (reviews result)"
      and e: "is_no_text git (file r)"
  shows "r = \<lparr>file = file r, issues = [],
              summary = note_failed_prefix @ trimFailure rt (readFileContent git (file r))\<rparr>"
  using reviews_are_reviews_of(1) [OF run git r] e
  by (cases "readFileContent git (file r)") (simp_all add: review_of_def is_no_text_def)

lemma analysed_review:
  assumes run: "executeReview rt hub w repositoryUrl branchName standardsContent = (Inr result, w')"
      and git: "git = snd (cloneRepository hub (gitService w) repositoryUrl branchName)"
      and r: "r \<in> set (reviews result)"
      and c: "readFileContent git (file r) = JStr content"
  shows "\<exists>w0. same_config (aiService w) (aiService w0)
            \<and> r = fst (analyzeFile rt w0 (file r) content
                         (detectLanguage rt (file r)) standardsContent)"
  using reviews_are_reviews_of(1) [OF run git r] c by (auto simp: review_of_def)

lemma no_final_newline_found:
  assumes "content \<noteq> []" and "last content \<noteq> newline"
  shows "performBasicCodeCheck p content l \<noteq> []"
  using assms by (simp add: performBasicCodeCheck_def Let_def endsWith_def)

lemma one_letter_findings: "length (performBasicCodeCheck p (jstr ''x'') l) = 1"
  by code_simp

section \<open>Blank files\<close>

text \<open>
  Claim C10. A file whose content is empty or white space gets no review: the reviews of a
  result are those of the other files the source provider holds after fetching, in the
  order of the list. The summary counts the reviews, the progress counts the files of the
  list and is the last value the callbacks were given; so when a file of the list is
  blank, the total of the summary is smaller than the total of the progress.
\<close>

theorem blank_files_get_no_review:
  assumes run: "executeReview rt hub w repositoryUrl branchName standardsContent = (Inr result, w')"
      and git: "git = snd (cloneRepository hub (gitService w) repositoryUrl branchName)"
      and files: "fs = getCodeFiles git"
  shows "gitService w' = git
       \<and> map file (reviews result) = filter (\<lambda>p. \<not> is_blank git p) fs
       \<and> ReviewSummary.totalFiles (ReviewResult.summary result) = length (reviews result)
       \<and> ReviewProgress.totalFiles (progress w') = length fs
       \<and> last (progressEvents w') = progress w'
       \<and> ((\<exists>p\<in>set fs. is_blank git p) \<longrightarrow>
            ReviewSummary.totalFiles (ReviewResult.summary result)
              < ReviewProgress.totalFiles (progress w'))"
proof -
  note f = executeReview_files [OF run git, folded files]
  have t: "ReviewSummary.totalFiles (ReviewResult.summary result) = length (reviews result)"
    by (simp add: executeReview_summary [OF run] generateSummary_counts)
  have len: "length (reviews result) = length (filter (\<lambda>p. \<not> is_blank git p) fs)"
    using f by (metis length_map)
  have "length (filter (\<lambda>p. \<not> is_blank git p) fs) < length fs" if "\<exists>p\<in>set fs. is_blank git p"
  proof -
    from that obtain p where "p \<in> set fs" and "is_blank git p" by blast
    thus ?thesis using length_filter_less [of p fs "\<lambda>p. \<not> is_blank git p"] by simp
  qed
  with f t len executeReview_reviews(2,3,4) [OF run git, folded files] show ?thesis by simp
qed

lemma blank_example:
  "filter (\<lambda>p. \<not> is_blank (snd (cloneRepository
                                     (hub_of [(jstr ''a.ts'', jstr ''x''), (jstr ''b.ts'', jstr ''  '')])
                                     (gitService fresh_session) [] [])) p)
     [jstr ''a.ts'', jstr ''b.ts''] = [jstr ''a.ts'']"
  by (simp add: is_blank_def hub_of_files(2)) code_simp

theorem blank_files_get_no_review_witness:
  "\<exists>result w'.
     executeReview example_runtime
       (hub_of [(jstr ''a.ts'', jstr ''x''), (jstr ''b.ts'', jstr ''  '')])
       fresh_session [] [] [] = (Inr result, w')
     \<and> map file (reviews result) = [jstr ''a.ts'']
     \<and> ReviewSummary.totalFiles (ReviewResult.summary result) = 1
     \<and> ReviewProgress.totalFiles (progress w') = 2"
proof -
  let ?fl = "[(jstr ''a.ts'', jstr ''x''), (jstr ''b.ts'', jstr ''  '')]"
  let ?git = "snd (cloneRepository (hub_of ?fl) (gitService fresh_session) [] [])"
  have d: "distinct (map fst ?fl)" by (simp add: jstr_def)
  obtain result w' where run:
    "executeReview example_runtime (hub_of ?fl) fresh_session [] [] [] = (Inr result, w')"
    using hub_of_returns [OF d, of example_runtime fresh_session "[]" "[]" "[]"] by auto
  have files: "[jstr ''a.ts'', jstr ''b.ts''] = getCodeFiles ?git"
    by (simp add: hub_of_files(1) [OF d])
  from blank_files_get_no_review [OF run refl files] blank_example
  have "map file (reviews result) = [jstr ''a.ts'']"
    and "ReviewSummary.totalFiles (ReviewResult.summary result) = length (reviews result)"
    and "ReviewProgress.totalFiles (progress w') = 2"
    by simp_all
  moreover from this(1) have "length (reviews result) = 1"
    using length_map [of "file" "reviews result"] by simp
  ultimately show ?thesis using run by simp
qed

section \<open>Files of more than 50,000 code units\<close>



lemma big_session:
  "\<exists>result w' r.
     executeReview example_runtime (hub_of [(jstr ''big.ts'', replicate 50001 0x62)])
       keyed_session [] [] [] = (Inr result, w')
     \<and> reviews result = [r] \<and> file r = jstr ''big.ts''
     \<and> readFileContent (gitService w') (jstr ''big.ts'') = JStr (replicate 50001 0x62)"
proof -
  let ?fl = "[(jstr ''big.ts'', replicate 50001 (0x62 :: jschar))]"
  let ?git = "snd (cloneRepository (hub_of ?fl) (gitService keyed_session) [] [])"
  have d: "distinct (map fst ?fl)" by simp
  obtain result w' where run:
    "executeReview example_runtime (hub_of ?fl) keyed_session [] [] [] = (Inr result, w')"
    using hub_of_returns [OF d, of example_runtime keyed_session "[]" "[]" "[]"] by auto
  have c: "readFileContent ?git (jstr ''big.ts'') = JStr (replicate 50001 0x62)"
    by (simp add: hub_of_files(2) [OF d])
  have "\<not> is_blank ?git (jstr ''big.ts'')"
    unfolding is_blank_def c by (simp add: trim_def is_space_def)
  with executeReview_files [OF run refl]
  have f: "map file (reviews result) = [jstr ''big.ts'']"
    by (simp add: hub_of_files(1) [OF d])
  then obtain r where rs: "reviews result = [r]" and fr: "file r = jstr ''big.ts''"
    by (cases "reviews result") auto
  from executeReview_reviews(4) [OF run refl] c
  have "readFileContent (gitService w') (jstr ''big.ts'') = JStr (replicate 50001 0x62)" by simp
  with run rs fr show ?thesis by blast
qed


section \<open>The order of the findings\<close>

text \<open>
  A session over one file of 50,001 letters \<open>b\<close>: its review has no findings, and the
  heuristic findings for the file are not empty.
\<close>

theorem merge_counterexample:
  "map_sum id (\<lambda>res. map issues (reviews res))
     (fst (executeReview example_runtime
             (hub_of [(jstr ''big.ts'', replicate 50001 0x62)])
             keyed_session [] [] [])) = Inr [[]]
   \<and> performBasicCodeCheck (jstr ''big.ts'') (replicate 50001 0x62)
         (detectLanguage example_runtime (jstr ''big.ts'')) \<noteq> []"
proof -
  have "performBasicCodeCheck (jstr ''big.ts'') (replicate 50001 (0x62 :: jschar))
          (detectLanguage example_runtime (jstr ''big.ts'')) \<noteq> []"
    by (rule no_final_newline_found) (simp_all add: newline_def)
  moreover from big_session obtain result w' r where
    run: "executeReview example_runtime (hub_of [(jstr ''big.ts'', replicate 50001 0x62)])
            keyed_session [] [] [] = (Inr result, w')"
    and rs: "reviews result = [r]" and fr: "file r = jstr ''big.ts''"
    and c: "readFileContent (gitService w') (jstr ''big.ts'') = JStr (replicate 50001 0x62)"
    by blast
  have c': "readFileContent (snd (cloneRepository
                                    (hub_of [(jstr ''big.ts'', replicate 50001 0x62)])
                                    (gitService keyed_session) [] [])) (file r)
              = JStr (replicate 50001 0x62)"
    using c fr executeReview_reviews(4) [OF run refl] by simp
  from analysed_review [OF run refl _ c'] rs obtain w0 where
    "r = fst (analyzeFile example_runtime w0 (file r) (replicate 50001 0x62)
               (detectLanguage example_runtime (file r)) [])"
    by auto
  hence "issues r = issues (fst (analyzeFile example_runtime w0 (file r) (replicate 50001 0x62)
               (detectLanguage example_runtime (file r)) []))"
    by (rule arg_cong)
  hence "issues r = []" by (simp add: analyzeFile_oversize)
  ultimately show ?thesis using run rs by simp
qed

text \<open>
  Claim C8, as amended. In the result of a session, the review of a file whose content
  is a string of at most 50,000 code units holds the heuristic findings for the file
  followed by the findings the remote review returned (none when it threw), each in its
  own order; the remote review ran in a state of the client with the configuration of the
  session. The review of a file whose content is not a string or has more than 50,000
  code units has no findings.
\<close>

theorem findings_are_heuristic_then_remote:
  assumes run: "executeReview rt hub w repositoryUrl branchName standardsContent = (Inr result, w')"
      and r: "r \<in> set (reviews result)"
  shows "case readFileContent (gitService w') (file r) of
           JStr content \<Rightarrow>
             if length content > 50000 then issues r = []
             else (\<exists>svc. same_config (aiService w) svc
                     \<and> issues r
                       = performBasicCodeCheck (file r) content (detectLanguage rt (file r))
                         @ (case fst (reviewCode rt True svc (file r) content
                                        (detectLanguage rt (file r)) standardsContent) of
                              Inr remote \<Rightarrow> issues remote
                            | Inl e \<Rightarrow> []))
         | other \<Rightarrow> issues r = []"
proof (cases "is_no_text (gitService w') (file r)")
  case True
  note g = executeReview_reviews(4) [OF run refl]
  have "issues r = []" by (subst unreadable_review [OF run refl r True [unfolded g]]) simp
  with True show ?thesis by (simp add: is_no_text_def split: json.splits)
next
  case False
  then obtain content where c: "readFileContent (gitService w') (file r) = JStr content"
    by (auto simp: is_no_text_def split: json.splits)
  note g = executeReview_reviews(4) [OF run refl]
  from analysed_review [OF run refl r c [unfolded g]] obtain w0 where
    w0: "same_config (aiService w) (aiService w0)"
        "r = fst (analyzeFile rt w0 (file r) content (detectLanguage rt (file r)) standardsContent)"
    by auto
  show ?thesis
  proof (cases "length content > 50000")
    case True
    have "issues r = []" by (subst w0(2)) (simp add: analyzeFile_oversize [OF True])
    with c True show ?thesis by simp
  next
    case False
    hence le: "length content \<le> 50000" by simp
    have "issues r
            = performBasicCodeCheck (file r) content (detectLanguage rt (file r))
              @ (case fst (reviewCode rt True (aiService w0) (file r) content
                             (detectLanguage rt (file r)) standardsContent) of
                   Inr remote \<Rightarrow> issues remote | Inl e \<Rightarrow> [])"
      by (subst w0(2)) (rule analyzeFile_issues [OF le])
    with w0(1) c False show ?thesis by auto
  qed
qed

theorem findings_are_heuristic_then_remote_witness:
  "\<exists>result w' r svc.
     executeReview example_runtime (hub_of [(jstr ''a.ts'', jstr ''x'')])
       keyed_session [] [] [] = (Inr result, w')
     \<and> reviews result = [r] \<and> same_config keyed_client svc
     \<and> issues r
         = performBasicCodeCheck (jstr ''a.ts'') (jstr ''x'')
             (detectLanguage example_runtime (jstr ''a.ts''))
           @ (case fst (reviewCode example_runtime True svc (jstr ''a.ts'') (jstr ''x'')
                          (detectLanguage example_runtime (jstr ''a.ts'')) []) of
                Inr remote \<Rightarrow> issues remote
              | Inl e \<Rightarrow> [])"
proof -
  let ?fl = "[(jstr ''a.ts'', jstr ''x'')]"
  let ?git = "snd (cloneRepository (hub_of ?fl) (gitService keyed_session) [] [])"
  have d: "distinct (map fst ?fl)" by simp
  obtain result w' where run:
    "executeReview example_runtime (hub_of ?fl) keyed_session [] [] [] = (Inr result, w')"
    using hub_of_returns [OF d, of example_runtime keyed_session "[]" "[]" "[]"] by auto
  have c: "readFileContent ?git (jstr ''a.ts'') = JStr (jstr ''x'')"
    by (simp add: hub_of_files(2) [OF d])
  have "trim (jstr ''x'') \<noteq> []" by code_simp
  hence "\<not> is_blank ?git (jstr ''a.ts'')"
    unfolding is_blank_def c by simp
  with executeReview_files [OF run refl]
  have "map file (reviews result) = [jstr ''a.ts'']"
    by (simp add: hub_of_files(1) [OF d])
  then obtain r where rs: "reviews result = [r]" and fr: "file r = jstr ''a.ts''"
    by (cases "reviews result") auto
  have r: "r \<in> set (reviews result)" using rs by simp
  have c': "readFileContent (gitService w') (file r) = JStr (jstr ''x'')"
    using c fr executeReview_reviews(4) [OF run refl] by simp
  have "length (jstr ''x'') \<le> 50000" by (simp add: jstr_def)
  with findings_are_heuristic_then_remote [OF run r] c' fr
  obtain svc where "same_config (aiService keyed_session) svc"
    and "issues r
         = performBasicCodeCheck (jstr ''a.ts'') (jstr ''x'')
             (detectLanguage example_runtime (jstr ''a.ts''))
           @ (case fst (reviewCode example_runtime True svc (jstr ''a.ts'') (jstr ''x'')
                          (detectLanguage example_runtime (jstr ''a.ts'')) []) of
                Inr remote \<Rightarrow> issues remote
              | Inl e \<Rightarrow> [])"
    by auto
  moreover have "aiService keyed_session = keyed_client"
    by (simp add: keyed_session_def)
  ultimately show ?thesis using run rs by auto
qed

section \<open>Failures of a single file\<close>

lemma remote_throw_review:
  assumes run: "executeReview rt hub w repositoryUrl branchName standardsContent = (Inr result, w')"
      and git: "git = snd (cloneRepository hub (gitService w) repositoryUrl branchName)"
      and r: "r \<in> set (reviews result)"
      and c: "readFileContent git (file r) = JStr content"
      and small: "length content \<le> 50000"
      and nokey: "no_credential (aiService w)"
  shows "r = \<lparr>file = file r,
              issues = performBasicCodeCheck (file r) content (detectLanguage rt (file r)),
              summary = note_basic_prefix
                        @ show_nat (length (performBasicCodeCheck (file r) content
                                              (detectLanguage rt (file r))))
                        @ note_basic_suffix\<rparr>"
proof -
  from analysed_review [OF run git r c] obtain w0 where
    w0: "same_config (aiService w) (aiService w0)"
        "r = fst (analyzeFile rt w0 (file r) content (detectLanguage rt (file r))
                    standardsContent)"
    by blast
  from w0(1) nokey have "no_credential (aiService w0)"
    by (simp add: same_config_no_credential)
  from analyzeFile_remote_throws [OF small this] w0(2) show ?thesis by simp
qed

lemma three_files:
  assumes "fl = [(jstr ''a.ts'', jstr ''x''), (jstr ''b.ts'', jstr ''x''), (jstr ''c.ts'', jstr ''x'')]"
      and "git = snd (cloneRepository (hub_of fl) g u b)"
  shows "getCodeFiles git = [jstr ''a.ts'', jstr ''b.ts'', jstr ''c.ts'']"
    and "p \<in> {jstr ''a.ts'', jstr ''b.ts'', jstr ''c.ts''} \<Longrightarrow> readFileContent git p = JStr (jstr ''x'')"
    and "filter (\<lambda>p. \<not> is_blank git p) [jstr ''a.ts'', jstr ''b.ts'', jstr ''c.ts'']
           = [jstr ''a.ts'', jstr ''b.ts'', jstr ''c.ts'']"
proof -
  have d: "distinct (map fst fl)" unfolding assms(1) by (simp add: jstr_def)
  show "getCodeFiles git = [jstr ''a.ts'', jstr ''b.ts'', jstr ''c.ts'']"
    unfolding assms(2) hub_of_files(1) [OF d] by (simp add: assms(1))
  have c: "readFileContent git p = JStr (jstr ''x'')"
    if "p \<in> {jstr ''a.ts'', jstr ''b.ts'', jstr ''c.ts''}" for p
    using that unfolding assms(2) hub_of_files(2) [OF d] by (auto simp: assms(1))
  thus "p \<in> {jstr ''a.ts'', jstr ''b.ts'', jstr ''c.ts''} \<Longrightarrow> readFileContent git p = JStr (jstr ''x'')" .
  have t: "trim (jstr ''x'') \<noteq> []" by code_simp
  have nb: "\<not> is_blank git p" if "p \<in> {jstr ''a.ts'', jstr ''b.ts'', jstr ''c.ts''}" for p
    using c [OF that] t by (simp add: is_blank_def)
  show "filter (\<lambda>p. \<not> is_blank git p) [jstr ''a.ts'', jstr ''b.ts'', jstr ''c.ts'']
           = [jstr ''a.ts'', jstr ''b.ts'', jstr ''c.ts'']"
    by (simp add: nb)
qed

lemma fresh_no_credential: "no_credential (aiService fresh_session)"
  by (simp add: no_credential_def fresh_session_def fresh_client_def)

text \<open>
  A session over three files, each the letter \<open>x\<close>, with a client that has no
  credential: the remote review throws for every file, and every review has one finding.
\<close>

theorem remote_exception_counterexample:
  "fst (reviewCode example_runtime True fresh_client (jstr ''b.ts'') (jstr ''x'')
          (detectLanguage example_runtime (jstr ''b.ts'')) [])
     = Inl (Error err_no_key_or_model)
   \<and> map_sum id (\<lambda>res. map (\<lambda>r. length (issues r)) (reviews res))
       (fst (executeReview example_runtime
               (hub_of [(jstr ''a.ts'', jstr ''x''), (jstr ''b.ts'', jstr ''x''),
                        (jstr ''c.ts'', jstr ''x'')])
               fresh_session [] [] []))
     = Inr [1, 1, 1]"
proof -
  let ?fl = "[(jstr ''a.ts'', jstr ''x''), (jstr ''b.ts'', jstr ''x''), (jstr ''c.ts'', jstr ''x'')]"
  let ?git = "snd (cloneRepository (hub_of ?fl) (gitService fresh_session) [] [])"
  note tf = three_files [where g = "gitService fresh_session" and u = "[]" and b = "[]",
                          OF refl refl]
  have d: "distinct (map fst ?fl)" by (simp add: jstr_def)
  obtain result w' where run:
    "executeReview example_runtime (hub_of ?fl) fresh_session [] [] [] = (Inr result, w')"
    using hub_of_returns [OF d, of example_runtime fresh_session "[]" "[]" "[]"] by auto
  from executeReview_files [OF run refl] tf(1,3)
  have f: "map file (reviews result) = [jstr ''a.ts'', jstr ''b.ts'', jstr ''c.ts'']" by simp
  then obtain r1 r2 r3 where rs: "reviews result = [r1, r2, r3]"
    and fr: "file r1 = jstr ''a.ts''" "file r2 = jstr ''b.ts''" "file r3 = jstr ''c.ts''"
    by (auto simp: map_eq_Cons_conv)
  have one: "length (issues r) = 1"
    if r: "r \<in> set (reviews result)"
      and p: "file r \<in> {jstr ''a.ts'', jstr ''b.ts'', jstr ''c.ts''}" for r
  proof -
    note c = tf(2) [OF p]
    have small: "length (jstr ''x'') \<le> 50000" by (simp add: jstr_def)
    have "issues r = issues \<lparr>file = file r,
              issues = performBasicCodeCheck (file r) (jstr ''x'')
                         (detectLanguage example_runtime (file r)),
              summary = note_basic_prefix
                        @ show_nat (length (performBasicCodeCheck (file r) (jstr ''x'')
                                              (detectLanguage example_runtime (file r))))
                        @ note_basic_suffix\<rparr>"
      using remote_throw_review [OF run refl r c small fresh_no_credential] by (rule arg_cong)
    thus ?thesis by (simp add: one_letter_findings)
  qed
  have "length (issues r1) = 1" by (rule one) (simp_all only: rs fr list.set_intros insertI1)
  moreover have "length (issues r2) = 1"
    by (rule one) (simp_all only: rs fr list.set_intros insertI1 insertI2)
  moreover have "length (issues r3) = 1"
    by (rule one) (simp_all only: rs fr list.set_intros insertI1 insertI2)
  moreover have "fst (reviewCode example_runtime True fresh_client (jstr ''b.ts'') (jstr ''x'')
          (detectLanguage example_runtime (jstr ''b.ts'')) []) = Inl (Error err_no_key_or_model)"
    by (simp add: reviewCode_throws no_credential_def fresh_client_def)
  ultimately show ?thesis using run rs by simp
qed

text \<open>
  Claim C2, as amended. Every file the source provider holds that is not blank gets one
  review, in the order of the list, whatever fails, and the summary counts them (three
  for three files). Two things throw in the pipeline of a file. When the content is not a
  string, \<open>content.trim()\<close> throws and the orchestrator catches it: the review has no
  findings and the note \<open>review failed\<close> with the message. When the remote review throws
  (the client has no credential or no model, and the content has at most 50,000 code
  units), \<open>analyzeFile\<close> catches it: the review has the heuristic findings and the note
  \<open>basic check done ... (AI analysis failed)\<close>. Both notes contain the failure marker.
  The session only appends to the log, and the error events it appends are exactly one
  for each file in whose pipeline something threw, in the order of the list: \<open>file
  review failed\<close> with the path and the message in the first case, \<open>AI analysis
  failed\<close> with the path in the second.
\<close>

theorem file_failures_are_contained:
  assumes run: "executeReview rt hub w repositoryUrl branchName standardsContent = (Inr result, w')"
      and git: "git = snd (cloneRepository hub (gitService w) repositoryUrl branchName)"
      and files: "fs = getCodeFiles git"
  shows "map file (reviews result) = filter (\<lambda>p. \<not> is_blank git p) fs
       \<and> ReviewSummary.totalFiles (ReviewResult.summary result)
           = length (filter (\<lambda>p. \<not> is_blank git p) fs)
       \<and> take (length (logEvents w)) (logEvents w') = logEvents w
       \<and> appended_errors w w'
           = map (error_event rt git) (filter (raises (aiService w) git) fs)
       \<and> (\<forall>r\<in>set (reviews result).
             is_no_text git (file r) \<longrightarrow>
               issues r = []
               \<and> CodeReview.summary r
                   = note_failed_prefix @ trimFailure rt (readFileContent git (file r))
               \<and> includes_str (CodeReview.summary r) failure_marker
               \<and> (L_error, log_file_failed,
                    Detail (file r @ detail_dash @ trimFailure rt (readFileContent git (file r))))
                   \<in> set (appended_errors w w'))
       \<and> (\<forall>r\<in>set (reviews result). \<forall>content.
             readFileContent git (file r) = JStr content \<and> length content \<le> 50000
             \<and> no_credential (aiService w) \<longrightarrow>
               issues r = performBasicCodeCheck (file r) content (detectLanguage rt (file r))
               \<and> CodeReview.summary r
                   = note_basic_prefix @ show_nat (length (issues r)) @ note_basic_suffix
               \<and> includes_str (CodeReview.summary r) failure_marker
               \<and> (L_error, log_ai_failed, Detail (file r)) \<in> set (appended_errors w w'))"
proof (intro conjI ballI allI impI)
  show f: "map file (reviews result) = filter (\<lambda>p. \<not> is_blank git p) fs"
    unfolding files by (rule executeReview_files [OF run git])
  have "ReviewSummary.totalFiles (ReviewResult.summary result) = length (reviews result)"
    by (simp add: executeReview_summary [OF run] generateSummary_counts)
  also have "\<dots> = length (filter (\<lambda>p. \<not> is_blank git p) fs)"
    using f length_map [of "file" "reviews result"] by simp
  finally show "ReviewSummary.totalFiles (ReviewResult.summary result)
                  = length (filter (\<lambda>p. \<not> is_blank git p) fs)" .
  from executeReview_errors(1) [OF run git]
  show "take (length (logEvents w)) (logEvents w') = logEvents w" by auto
  show e: "appended_errors w w'
           = map (error_event rt git) (filter (raises (aiService w) git) fs)"
    unfolding files by (rule executeReview_errors(2) [OF run git])
  {
    fix r
    assume r: "r \<in> set (reviews result)" and n: "is_no_text git (file r)"
    note eq = unreadable_review [OF run git r n]
    show "issues r = []" by (subst eq) simp
    show s: "CodeReview.summary r
               = note_failed_prefix @ trimFailure rt (readFileContent git (file r))"
      by (subst eq) simp
    show "includes_str (CodeReview.summary r) failure_marker"
      unfolding s by (rule failed_note_marked)
    from reviews_are_reviews_of(2) [OF run git r] n
    have "file r \<in> set (filter (raises (aiService w) git) fs)"
      unfolding files by (simp add: raises_def)
    hence "error_event rt git (file r) \<in> set (appended_errors w w')"
      unfolding e set_map by (rule imageI)
    moreover have "error_event rt git (file r)
                     = (L_error, log_file_failed,
                        Detail (file r @ detail_dash
                                @ trimFailure rt (readFileContent git (file r))))"
      using n by (cases "readFileContent git (file r)")
                 (simp_all add: error_event_def is_no_text_def)
    ultimately show "(L_error, log_file_failed,
                      Detail (file r @ detail_dash
                              @ trimFailure rt (readFileContent git (file r))))
                     \<in> set (appended_errors w w')"
      by simp
  }
  {
    fix r content
    assume r: "r \<in> set (reviews result)"
      and h: "readFileContent git (file r) = JStr content \<and> length content \<le> 50000
              \<and> no_credential (aiService w)"
    hence c: "readFileContent git (file r) = JStr content"
      and small: "length content \<le> 50000"
      and nokey: "no_credential (aiService w)"
      by simp_all
    note eq = remote_throw_review [OF run git r c small nokey]
    show i: "issues r = performBasicCodeCheck (file r) content (detectLanguage rt (file r))"
      by (subst eq) simp
    show s: "CodeReview.summary r
               = note_basic_prefix @ show_nat (length (issues r)) @ note_basic_suffix"
      unfolding i by (subst eq) simp
    show "includes_str (CodeReview.summary r) failure_marker"
      unfolding s by (rule basic_note_marked)
    from reviews_are_reviews_of(2,3) [OF run git r] c small nokey
    have "file r \<in> set (filter (raises (aiService w) git) fs)"
      unfolding files by (simp add: raises_def is_small_def)
    hence "error_event rt git (file r) \<in> set (appended_errors w w')"
      unfolding e set_map by (rule imageI)
    thus "(L_error, log_ai_failed, Detail (file r)) \<in> set (appended_errors w w')"
      using c by (simp add: error_event_def)
  }
qed

lemma mixed_files:
  assumes "fl = [(jstr ''a.ts'', JStr (jstr ''x'')), (jstr ''b.ts'', JNum (Fin 5)),
                 (jstr ''c.ts'', JStr (jstr '' '')), (jstr ''d.ts'', JStr (jstr ''x''))]"
      and "git = snd (cloneRepository (hub_with fl) g u b)"
  shows "getCodeFiles git = [jstr ''a.ts'', jstr ''b.ts'', jstr ''c.ts'', jstr ''d.ts'']"
    and "readFileContent git (jstr ''a.ts'') = JStr (jstr ''x'')"
    and "readFileContent git (jstr ''b.ts'') = JNum (Fin 5)"
    and "filter (\<lambda>p. \<not> is_blank git p) [jstr ''a.ts'', jstr ''b.ts'', jstr ''c.ts'', jstr ''d.ts'']
           = [jstr ''a.ts'', jstr ''b.ts'', jstr ''d.ts'']"
    and "no_credential svc \<Longrightarrow>
         map (error_event rt git)
           (filter (raises svc git) [jstr ''a.ts'', jstr ''b.ts'', jstr ''c.ts'', jstr ''d.ts''])
           = [(L_error, log_ai_failed, Detail (jstr ''a.ts'')),
              (L_error, log_file_failed,
               Detail (jstr ''b.ts'' @ detail_dash @ trimFailure rt (JNum (Fin 5)))),
              (L_error, log_ai_failed, Detail (jstr ''d.ts''))]"
proof -
  have d: "distinct (map fst fl)" unfolding assms(1) by (simp add: jstr_def)
  show "getCodeFiles git = [jstr ''a.ts'', jstr ''b.ts'', jstr ''c.ts'', jstr ''d.ts'']"
    unfolding assms(2) hub_with_files(1) [OF d] by (simp add: assms(1))
  have c: "readFileContent git (jstr ''a.ts'') = JStr (jstr ''x'')"
          "readFileContent git (jstr ''b.ts'') = JNum (Fin 5)"
          "readFileContent git (jstr ''c.ts'') = JStr (jstr '' '')"
          "readFileContent git (jstr ''d.ts'') = JStr (jstr ''x'')"
    unfolding assms(2) hub_with_files(2) [OF d]
    by (simp_all add: assms(1) jstr_def or_else_def truthy_def num_truthy_def)
  show "readFileContent git (jstr ''a.ts'') = JStr (jstr ''x'')" by (rule c(1))
  show "readFileContent git (jstr ''b.ts'') = JNum (Fin 5)" by (rule c(2))
  have t: "trim (jstr ''x'') \<noteq> []" "trim (jstr '' '') = []" by code_simp+
  have b: "\<not> is_blank git (jstr ''a.ts'')" "\<not> is_blank git (jstr ''b.ts'')"
          "is_blank git (jstr ''c.ts'')" "\<not> is_blank git (jstr ''d.ts'')"
    unfolding is_blank_def c using t by simp_all
  show "filter (\<lambda>p. \<not> is_blank git p) [jstr ''a.ts'', jstr ''b.ts'', jstr ''c.ts'', jstr ''d.ts'']
           = [jstr ''a.ts'', jstr ''b.ts'', jstr ''d.ts'']"
    using b by simp
  have l: "length (jstr ''x'') \<le> 50000" by (simp add: jstr_def)
  assume "no_credential svc"
  hence ra: "raises svc git (jstr ''a.ts'')" "raises svc git (jstr ''b.ts'')"
            "\<not> raises svc git (jstr ''c.ts'')" "raises svc git (jstr ''d.ts'')"
    using b l unfolding raises_def is_small_def is_no_text_def c by simp_all
  show "map (error_event rt git)
           (filter (raises svc git) [jstr ''a.ts'', jstr ''b.ts'', jstr ''c.ts'', jstr ''d.ts''])
           = [(L_error, log_ai_failed, Detail (jstr ''a.ts'')),
              (L_error, log_file_failed,
               Detail (jstr ''b.ts'' @ detail_dash @ trimFailure rt (JNum (Fin 5)))),
              (L_error, log_ai_failed, Detail (jstr ''d.ts''))]"
    using ra by (simp add: error_event_def c)
qed

theorem file_failures_are_contained_witness:
  "\<exists>result w' r1 r2 r3.
     executeReview example_runtime
       (hub_with [(jstr ''a.ts'', JStr (jstr ''x'')), (jstr ''b.ts'', JNum (Fin 5)),
                  (jstr ''c.ts'', JStr (jstr '' '')), (jstr ''d.ts'', JStr (jstr ''x''))])
       fresh_session [] [] [] = (Inr result, w')
     \<and> reviews result = [r1, r2, r3]
     \<and> map file (reviews result) = [jstr ''a.ts'', jstr ''b.ts'', jstr ''d.ts'']
     \<and> ReviewSummary.totalFiles (ReviewResult.summary result) = 3
     \<and> appended_errors fresh_session w'
         = [(L_error, log_ai_failed, Detail (jstr ''a.ts'')),
            (L_error, log_file_failed,
             Detail (jstr ''b.ts'' @ detail_dash @ jstr ''content.trim is not a function'')),
            (L_error, log_ai_failed, Detail (jstr ''d.ts''))]
     \<and> issues r1 = performBasicCodeCheck (jstr ''a.ts'') (jstr ''x'')
                      (detectLanguage example_runtime (jstr ''a.ts''))
     \<and> includes_str (CodeReview.summary r1) failure_marker
     \<and> issues r2 = []
     \<and> CodeReview.summary r2 = note_failed_prefix @ jstr ''content.trim is not a function''"
proof -
  let ?fl = "[(jstr ''a.ts'', JStr (jstr ''x'')), (jstr ''b.ts'', JNum (Fin 5)),
              (jstr ''c.ts'', JStr (jstr '' '')), (jstr ''d.ts'', JStr (jstr ''x''))]"
  let ?git = "snd (cloneRepository (hub_with ?fl) (gitService fresh_session) [] [])"
  note mf = mixed_files [where g = "gitService fresh_session" and u = "[]" and b = "[]",
                          OF refl refl]
  have d: "distinct (map fst ?fl)" by (simp add: jstr_def)
  obtain result w' where run:
    "executeReview example_runtime (hub_with ?fl) fresh_session [] [] [] = (Inr result, w')"
    using hub_with_returns [OF d, of example_runtime fresh_session "[]" "[]" "[]"] by auto
  note t = file_failures_are_contained [OF run refl mf(1) [symmetric], unfolded mf(4)]
  from t have f: "map file (reviews result) = [jstr ''a.ts'', jstr ''b.ts'', jstr ''d.ts'']"
    by (rule conjunct1)
  then obtain r1 r2 r3 where rs: "reviews result = [r1, r2, r3]"
    and fr: "file r1 = jstr ''a.ts''" "file r2 = jstr ''b.ts''"
    by (auto simp: map_eq_Cons_conv)
  have in1: "r1 \<in> set (reviews result)" and in2: "r2 \<in> set (reviews result)"
    by (simp_all add: rs)
  have c1: "readFileContent ?git (file r1) = JStr (jstr ''x'')"
    unfolding fr by (rule mf(2))
  have c2: "readFileContent ?git (file r2) = JNum (Fin 5)"
    unfolding fr by (rule mf(3))
  have n2: "is_no_text ?git (file r2)" by (simp add: is_no_text_def c2)
  have small: "length (jstr ''x'') \<le> 50000" by (simp add: jstr_def)
  have tf: "trimFailure example_runtime v = jstr ''content.trim is not a function''" for v
    by (simp add: example_runtime_def)
  note t2 = t [THEN conjunct2, THEN conjunct1]
  note t4 = t [THEN conjunct2, THEN conjunct2, THEN conjunct2, THEN conjunct1]
  note t5 = t [THEN conjunct2, THEN conjunct2, THEN conjunct2, THEN conjunct2, THEN conjunct1,
               rule_format, OF in2 n2]
  note t6 = t [THEN conjunct2, THEN conjunct2, THEN conjunct2, THEN conjunct2, THEN conjunct2,
               rule_format, OF in1, OF conjI [OF c1 conjI [OF small fresh_no_credential]]]
  from t2 have n: "ReviewSummary.totalFiles (ReviewResult.summary result) = 3" by simp
  from t4 mf(5) [OF fresh_no_credential, of example_runtime]
  have e: "appended_errors fresh_session w'
         = [(L_error, log_ai_failed, Detail (jstr ''a.ts'')),
            (L_error, log_file_failed,
             Detail (jstr ''b.ts'' @ detail_dash @ jstr ''content.trim is not a function'')),
            (L_error, log_ai_failed, Detail (jstr ''d.ts''))]"
    by (simp add: tf)
  from t6 [THEN conjunct1]
  have i: "issues r1 = performBasicCodeCheck (jstr ''a.ts'') (jstr ''x'')
                      (detectLanguage example_runtime (jstr ''a.ts''))"
    by (simp add: fr)
  from t6 have m: "includes_str (CodeReview.summary r1) failure_marker"
    by (elim conjE)
  from t5 have i2: "issues r2 = []" by (elim conjE)
  from t5 [THEN conjunct2, THEN conjunct1]
  have s2: "CodeReview.summary r2 = note_failed_prefix @ jstr ''content.trim is not a function''"
    by (simp add: tf)
  show ?thesis
    by (intro exI [of _ result] exI [of _ w'] exI [of _ r1] exI [of _ r2] exI [of _ r3] conjI)
       (rule run rs f n e i m i2 s2)+
qed
end
